theory Spec2Isabelle
  imports
    Complex_Main
    "HOL-Library.Sublist"
    "HOL-Library.Char_ord"
    "HOL-Library.List_Lexorder"
    "HOL-Library.Multiset"
begin

chapter \<open>TalentFlow: the mock API handlers and the optimistic page controllers\<close>

text \<open>
  The development embeds these source files:
  \<^item> \<open>src/api/handlers.js\<close>: the mock-service-worker resolvers over the Dexie tables,
    and the array that registers them;
  \<^item> \<open>src/pages/CandidatesPage.jsx\<close>: the Kanban drag handlers and the fetch of the page;
  \<^item> \<open>src/pages/JobsPage.jsx\<close>: the jobs board drag handler and the fetch of the page;
  \<^item> \<open>src/hooks/useToasts\<close>: the toast provider, for the identity of \<open>addToast\<close>.

  Conventions. A resolver is a function from its inputs and the tables to an outcome and
  the tables afterwards. \<open>Math.random()\<close> and \<open>new Date().toISOString()\<close> are inputs.
  The latency (\<open>randomLatency\<close>) only delays a resolver and is not modelled.
  Records are typed as the schema in \<open>db.js\<close> and the seed data have them. A request
  body is JSON text unless the resolver itself provides for text that is not. An
  \<open>await\<close> in a page handler splits the handler in the part before it and the part after
  it. The resolvers answer through the \<open>handlers\<close> array, which the mock worker searches
  from its first entry.
\<close>

section \<open>JavaScript helpers\<close>

text \<open>\<open>String.prototype.toLowerCase\<close> on ASCII text.\<close>

definition lower_char :: "char \<Rightarrow> char" where
  "lower_char c =
     (case map_of (zip ''ABCDEFGHIJKLMNOPQRSTUVWXYZ'' ''abcdefghijklmnopqrstuvwxyz'') c of
        Some d \<Rightarrow> d
      | None \<Rightarrow> c)"

definition toLowerCase :: "string \<Rightarrow> string" where
  "toLowerCase s = map lower_char s"

text \<open>\<open>s.startsWith(t)\<close>.\<close>

definition startsWith :: "string \<Rightarrow> string \<Rightarrow> bool" where
  "startsWith s t = prefix t s"

text \<open>\<open>Array.prototype.find\<close> is \<^const>\<open>find\<close>; \<open>findIndex\<close> returns \<open>-1\<close> when nothing matches.\<close>

fun findIndex :: "('a \<Rightarrow> bool) \<Rightarrow> 'a list \<Rightarrow> int" where
  "findIndex P [] = - 1"
| "findIndex P (x # xs) =
     (if P x then 0 else (let i = findIndex P xs in if i < 0 then - 1 else i + 1))"

text \<open>
  The relative index of \<open>slice\<close> and \<open>splice\<close>: a negative index counts from the end,
  and the result is clamped to \<open>[0, len]\<close>.
\<close>

definition rel_index :: "int \<Rightarrow> nat \<Rightarrow> nat" where
  "rel_index i len = (if i < 0 then nat (max (int len + i) 0) else min (nat i) len)"

definition js_slice :: "'a list \<Rightarrow> int \<Rightarrow> int \<Rightarrow> 'a list" where
  "js_slice xs start fin =
     (let k = rel_index start (length xs); f = rel_index fin (length xs)
      in take (f - k) (drop k xs))"

text \<open>\<open>a.splice(start, 1)\<close>: the removed elements and the array afterwards.\<close>

definition splice_delete1 :: "'a list \<Rightarrow> int \<Rightarrow> 'a list \<times> 'a list" where
  "splice_delete1 xs start =
     (let k = rel_index start (length xs)
      in (take 1 (drop k xs), take k xs @ drop (Suc k) xs))"

text \<open>\<open>a.splice(start, 0, item)\<close>: the array afterwards.\<close>

definition splice_insert :: "'a list \<Rightarrow> int \<Rightarrow> 'a \<Rightarrow> 'a list" where
  "splice_insert xs start item =
     (let k = rel_index start (length xs) in take k xs @ item # drop k xs)"

text \<open>
  \<open>arrayMove\<close> of \<open>@dnd-kit/sortable\<close>:
  \<^verbatim>\<open>newArray.splice(to < 0 ? newArray.length + to : to, 0, newArray.splice(from, 1)[0])\<close>.
  The first argument is evaluated before the inner \<open>splice\<close> shortens the array. When the
  inner \<open>splice\<close> removes nothing (\<open>from\<close> at or beyond the end) the JavaScript inserts
  \<open>undefined\<close>; a typed list cannot hold it and the model returns \<open>None\<close>.
\<close>

definition arrayMove :: "'a list \<Rightarrow> int \<Rightarrow> int \<Rightarrow> 'a list option" where
  "arrayMove array from to =
     (let toIdx = (if to < 0 then int (length array) + to else to);
          (removed, rest) = splice_delete1 array from
      in case removed of
           [] \<Rightarrow> None
         | item # _ \<Rightarrow> Some (splice_insert rest toIdx item))"

text \<open>\<open>Math.ceil(total / pageSize)\<close>; a zero \<open>pageSize\<close> gives \<open>Infinity\<close> or \<open>NaN\<close>, here \<open>None\<close>.\<close>

definition ceil_div :: "int \<Rightarrow> int \<Rightarrow> int option" where
  "ceil_div n pageSize = (if pageSize = 0 then None else Some (- ((- n) div pageSize)))"

text \<open>
  \<open>parseInt(s, 10)\<close>: leading white space, an optional sign, then the longest run of
  decimal digits; \<open>NaN\<close>, here \<open>None\<close>, when that run is empty.
\<close>

definition is_space :: "char \<Rightarrow> bool" where
  "is_space c = (c \<in> set [CHR '' '', CHR 0x09, CHR 0x0A, CHR 0x0B, CHR 0x0C, CHR 0x0D])"

definition digit_of :: "char \<Rightarrow> nat option" where
  "digit_of c = map_of (zip ''0123456789'' [0..<10]) c"

definition digits_value :: "string \<Rightarrow> nat" where
  "digits_value ds = foldl (\<lambda>a c. case digit_of c of None \<Rightarrow> a | Some v \<Rightarrow> 10 * a + v) 0 ds"

definition parseInt10 :: "string \<Rightarrow> int option" where
  "parseInt10 s =
     (let t = dropWhile is_space s;
          negative = (case t of [] \<Rightarrow> False | c # r \<Rightarrow> c = CHR ''-'');
          u = (case t of [] \<Rightarrow> [] | c # r \<Rightarrow> if c = CHR ''-'' \<or> c = CHR ''+'' then r else t);
          ds = takeWhile (\<lambda>c. digit_of c \<noteq> None) u
      in if ds = [] then None
         else Some (if negative then - int (digits_value ds) else int (digits_value ds)))"

text \<open>
  An identifier is a number or a string. Interpolated into a URL (\<open>`/candidates/${id}`\<close>)
  a number gives its decimal numeral, which \<open>parseInt\<close> reads back.
\<close>

datatype uid = Num int | Str string

definition parseInt :: "uid \<Rightarrow> int option" where
  "parseInt seg = (case seg of Num n \<Rightarrow> Some n | Str s \<Rightarrow> parseInt10 s)"

section \<open>Data model (\<open>db.js\<close>)\<close>

record job =
  job_id :: int
  title :: string
  slug :: string
  status :: string
  order :: int
  job_createdAt :: string
  description :: string
  tags :: "string list"

record candidate =
  cand_id :: int
  name :: string
  email :: string
  stage :: string
  jobId :: int
  cand_createdAt :: string
  avatarUrl :: string

definition CANDIDATE_STAGES :: "(string \<times> string) list" where
  "CANDIDATE_STAGES =
     [(''applied'', ''Applied''), (''screen'', ''Screen''), (''tech'', ''Tech Interview''),
      (''offer'', ''Offer''), (''hired'', ''Hired''), (''rejected'', ''Rejected'')]"

definition STAGE_IDS :: "string list" where
  "STAGE_IDS = map fst CANDIDATE_STAGES"

section \<open>Responses of the mock API\<close>

text \<open>
  A response carries its status and its JSON body; \<open>res.ok\<close> is a status in \<open>200..299\<close>.
  The bodies are the shapes the resolvers build. A patch body is typed as the fields it
  may set, each present or absent.
\<close>

record job_patch =
  p_title :: "string option"
  p_slug :: "string option"
  p_status :: "string option"
  p_order :: "int option"
  p_description :: "string option"
  p_tags :: "string list option"

record candidate_patch =
  p_name :: "string option"
  p_email :: "string option"
  p_stage :: "string option"
  p_jobId :: "int option"

record pagination =
  pg_page :: int
  pg_pageSize :: int
  pg_total :: int
  pg_totalPages :: "int option"

datatype json =
    JNull
  | JBool bool
  | JNum int
  | JStr string
  | JArr "json list"
  | JObj "(string \<times> json) list"

record assessmentResponse =
  ar_id :: int
  ar_submission :: json
  ar_jobId :: "int option"
  ar_createdAt :: string

text \<open>
  The body of \<open>PATCH /jobs/reorder\<close>: text that \<open>request.json()\<close> rejects, a JSON value
  with no array under \<open>orderedJobs\<close>, or an array of \<open>{id, order}\<close> pairs under
  \<open>orderedJobs\<close>.
\<close>

datatype reorder_body = Unparseable | NoArray | OrderedJobs "(int \<times> int) list"

text \<open>
  What \<open>PATCH /jobs/:id\<close> may read as its body: an object of job fields, or the body of
  a reorder request.
\<close>

datatype job_updates = JobFields job_patch | ReorderFields reorder_body

type_synonym timeline_event = "int \<times> string \<times> string \<times> string"

datatype body =
    Message string
  | JobsPage "job list" pagination
  | JobBody job
  | JobPatched "int option" job_updates
  | StatusOk
  | CandidatesPage "candidate list" pagination
  | CandidateBody candidate
  | CandidatePatched "int option" candidate_patch
  | TimelineBody "timeline_event list"
  | AssessmentStored "int option" json
  | AssessmentBody json
  | ResponseBody assessmentResponse

record response =
  res_status :: nat
  res_body :: body

definition ok :: "response \<Rightarrow> bool" where
  "ok res = (200 \<le> res_status res \<and> res_status res \<le> 299)"

definition HttpResponse_json :: "body \<Rightarrow> nat \<Rightarrow> response" where
  "HttpResponse_json b st = \<lparr>res_status = st, res_body = b\<rparr>"

section \<open>The Kanban drag handlers (\<open>CandidatesPage.jsx\<close>)\<close>

text \<open>
  A drag event of \<open>@dnd-kit/core\<close> names the dragged item and the item under it by their
  ids. A column is registered under its stage id (a string), a card under its candidate id
  (a number).
\<close>

record drag_event =
  active :: uid
  over :: "uid option"

text \<open>A toast is its message and its type; a request is one \<open>fetch\<close> the page has issued.\<close>

type_synonym toast = "string \<times> string"

record patch_request =
  rq_id :: uid
  rq_stage :: "string option"

record candidates_page =
  cp_candidates :: "candidate list"
  cp_activeCandidate :: "candidate option"
  cp_toasts :: "toast list"
  cp_requests :: "patch_request list"

definition has_id :: "uid \<Rightarrow> candidate \<Rightarrow> bool" where
  "has_id i c = (Num (cand_id c) = i)"

definition findContainer :: "candidate list \<Rightarrow> uid \<Rightarrow> string option" where
  "findContainer cs i =
     (case i of
        Str s \<Rightarrow> if s \<in> set STAGE_IDS then Some s else map_option stage (find (has_id i) cs)
      | Num n \<Rightarrow> map_option stage (find (has_id i) cs))"

text \<open>\<open>!x\<close> for a value that is a string or \<open>undefined\<close>.\<close>

definition falsy :: "string option \<Rightarrow> bool" where
  "falsy v = (v = None \<or> v = Some [])"

definition handleDragStart :: "drag_event \<Rightarrow> candidates_page \<Rightarrow> candidates_page" where
  "handleDragStart ev s = s\<lparr>cp_activeCandidate := find (has_id (active ev)) (cp_candidates s)\<rparr>"

text \<open>
  \<open>handleDragOver\<close> writes the stage of the column under the pointer into the dragged
  candidate's object (\<open>prev[activeIndex].stage = overContainer\<close>) and stores a copy of the
  array. The array holds that same object, so the model updates the list at that index.
  The drag overlay (\<open>activeCandidate\<close>) may hold the object as well; the model keeps the
  overlay as the value read at drag start, and nothing below reads it.
\<close>

definition handleDragOver :: "drag_event \<Rightarrow> candidates_page \<Rightarrow> candidates_page" where
  "handleDragOver ev s =
     (case over ev of
        None \<Rightarrow> s
      | Some o_id \<Rightarrow>
          let activeContainer = findContainer (cp_candidates s) (active ev);
              overContainer = findContainer (cp_candidates s) o_id
          in if falsy activeContainer \<or> falsy overContainer \<or> activeContainer = overContainer
             then s
             else
               (case overContainer of
                  None \<Rightarrow> s
                | Some st \<Rightarrow>
                    let prev = cp_candidates s;
                        activeIndex = findIndex (has_id (active ev)) prev
                    in if activeIndex = - 1 then s
                       else s\<lparr>cp_candidates :=
                                prev[nat activeIndex := (prev ! nat activeIndex)\<lparr>stage := st\<rparr>]\<rparr>))"

text \<open>
  \<open>handleDragEnd\<close> up to its \<open>await fetch\<close>: it either returns, or issues one
  \<open>PATCH /candidates/:id\<close> and waits with \<open>activeId\<close>, \<open>oldStage\<close>, \<open>newStage\<close> and the
  candidate's name in scope.
\<close>

record pending_move =
  pm_activeId :: uid
  pm_oldStage :: string
  pm_newStage :: "string option"
  pm_name :: string

definition handleDragEnd_issue ::
  "drag_event \<Rightarrow> candidates_page \<Rightarrow> candidates_page \<times> pending_move option" where
  "handleDragEnd_issue ev s0 =
     (let s = s0\<lparr>cp_activeCandidate := None\<rparr>; cs = cp_candidates s
      in case over ev of
           None \<Rightarrow> (s, None)
         | Some overId \<Rightarrow>
             let activeId = active ev;
                 overContainer = findContainer cs overId
             in if falsy overContainer \<and> find (has_id overId) cs = None then (s, None)
                else
                  (case find (has_id activeId) cs of
                     None \<Rightarrow> (s, None)
                   | Some originalCandidate \<Rightarrow>
                       let oldStage = stage originalCandidate;
                           newStage = overContainer
                       in if Some oldStage = newStage then (s, None)
                          else
                            (s\<lparr>cp_requests :=
                                 cp_requests s @ [\<lparr>rq_id = activeId, rq_stage = newStage\<rparr>]\<rparr>,
                             Some \<lparr>pm_activeId = activeId, pm_oldStage = oldStage,
                                   pm_newStage = newStage, pm_name = name originalCandidate\<rparr>)))"

text \<open>
  The rest of \<open>handleDragEnd\<close>, run on the state the page has when the response arrives.
  The success toast looks the new stage up in \<open>CANDIDATE_STAGES\<close>; when it is not there
  \<open>.title\<close> throws inside the \<open>try\<close> and the \<open>catch\<close> branch runs.
\<close>

definition error_message :: "response \<Rightarrow> string" where
  "error_message res =
     (case res_body res of
        Message m \<Rightarrow> if m = [] then ''API call failed'' else m
      | _ \<Rightarrow> ''API call failed'')"

definition revert_stage :: "pending_move \<Rightarrow> string \<Rightarrow> candidates_page \<Rightarrow> candidates_page" where
  "revert_stage p msg s =
     s\<lparr>cp_toasts := cp_toasts s @ [(''Error: '' @ msg @ ''. Reverting stage change.'', ''error'')],
       cp_candidates :=
         map (\<lambda>c. if has_id (pm_activeId p) c then c\<lparr>stage := pm_oldStage p\<rparr> else c)
           (cp_candidates s)\<rparr>"

definition handleDragEnd_settle ::
  "response \<Rightarrow> pending_move \<Rightarrow> candidates_page \<Rightarrow> candidates_page" where
  "handleDragEnd_settle res p s =
     (if \<not> ok res then revert_stage p (error_message res) s
      else
        (case pm_newStage p of
           None \<Rightarrow> revert_stage p ''Cannot read properties of undefined'' s
         | Some st \<Rightarrow>
             (case map_of CANDIDATE_STAGES st of
                None \<Rightarrow> revert_stage p ''Cannot read properties of undefined'' s
              | Some t \<Rightarrow>
                  s\<lparr>cp_toasts := cp_toasts s @ [(pm_name p @ '' moved to '' @ t, ''success'')]\<rparr>)))"

text \<open>
  \<open>handleDragEnd\<close> with nothing else happening while the request is in flight. This is
  the handler alone; the effect of the page that a toast triggers follows in
  \<open>drop_on_board\<close>.
\<close>

definition handleDragEnd :: "response \<Rightarrow> drag_event \<Rightarrow> candidates_page \<Rightarrow> candidates_page" where
  "handleDragEnd res ev s =
     (case handleDragEnd_issue ev s of
        (s', None) \<Rightarrow> s'
      | (s', Some p) \<Rightarrow> handleDragEnd_settle res p s')"

section \<open>The Dexie tables (\<open>db.js\<close>)\<close>

text \<open>
  \<open>jobs: '++id, &slug, ...'\<close>, \<open>candidates: '++id, &email, ...'\<close>,
  \<open>assessments: '&jobId, ...'\<close>, \<open>assessmentResponses: '++id, ...'\<close>.
  A table is the list of its records in primary-key order, which is the order in which a
  collection over the whole table or over one value of an index yields them. An
  auto-incremented table carries its key generator. An assessment is stored under its
  \<open>jobId\<close>; the pair \<open>(jobId, data)\<close> stands for the object \<open>{...data, jobId}\<close>.
\<close>

record db =
  jobs :: "job list"
  jobs_keygen :: int
  candidates :: "candidate list"
  candidates_keygen :: int
  assessments :: "(int \<times> json) list"
  assessmentResponses :: "assessmentResponse list"
  assessmentResponses_keygen :: int

text \<open>A rejected Dexie promise that a resolver does not catch ends the resolver.\<close>

datatype exn = ConstraintError | DataError | InvalidKey | SyntaxError | NotMocked

type_synonym outcome = "exn + response"

text \<open>\<open>db.jobs.add(obj)\<close>: the record gets the next key; a slug in use violates \<open>&slug\<close>.\<close>

definition jobs_add :: "(int \<Rightarrow> job) \<Rightarrow> db \<Rightarrow> exn + int \<times> db" where
  "jobs_add mk d =
     (let i = jobs_keygen d
      in if slug (mk i) \<in> slug ` set (jobs d) then Inl ConstraintError
         else Inr (i, d\<lparr>jobs := jobs d @ [mk i], jobs_keygen := i + 1\<rparr>))"

definition candidates_add :: "(int \<Rightarrow> candidate) \<Rightarrow> db \<Rightarrow> exn + int \<times> db" where
  "candidates_add mk d =
     (let i = candidates_keygen d
      in if email (mk i) \<in> email ` set (candidates d) then Inl ConstraintError
         else Inr (i, d\<lparr>candidates := candidates d @ [mk i], candidates_keygen := i + 1\<rparr>))"

definition assessmentResponses_add :: "(int \<Rightarrow> assessmentResponse) \<Rightarrow> db \<Rightarrow> int \<times> db" where
  "assessmentResponses_add mk d =
     (let i = assessmentResponses_keygen d
      in (i, d\<lparr>assessmentResponses := assessmentResponses d @ [mk i],
                assessmentResponses_keygen := i + 1\<rparr>))"

text \<open>
  \<open>db.assessments.put(obj)\<close>: replaces the record under the key or inserts it. The key
  is \<open>obj.jobId\<close>; \<open>NaN\<close> is not a key and the promise rejects with a \<open>DataError\<close>.
\<close>

definition assessments_put :: "int option \<Rightarrow> json \<Rightarrow> db \<Rightarrow> exn + db" where
  "assessments_put key doc d =
     (case key of
        None \<Rightarrow> Inl DataError
      | Some k \<Rightarrow>
          Inr (d\<lparr>assessments :=
                  (if k \<in> fst ` set (assessments d)
                   then map (\<lambda>(k', v). if k' = k then (k', doc) else (k', v)) (assessments d)
                   else assessments d @ [(k, doc)])\<rparr>))"

text \<open>\<open>db.assessments.get(key)\<close>.\<close>

definition assessments_get :: "int option \<Rightarrow> db \<Rightarrow> exn + json option" where
  "assessments_get key d =
     (case key of None \<Rightarrow> Inl DataError | Some k \<Rightarrow> Inr (map_of (assessments d) k))"

text \<open>
  \<open>table.update(key, changes)\<close>: sets the fields of \<open>changes\<close> in the record under
  \<open>key\<close>; with no such record it resolves with \<open>0\<close> and nothing is written. \<open>NaN\<close> is
  not a key: the promise rejects with a \<open>DataError\<close>. A reorder body holds no field of the
  typed record, and the property \<open>orderedJobs\<close> it would add is not kept.
\<close>

definition apply_job_patch :: "job_patch \<Rightarrow> job \<Rightarrow> job" where
  "apply_job_patch p j =
     j\<lparr>title := (case p_title p of None \<Rightarrow> title j | Some v \<Rightarrow> v),
       slug := (case p_slug p of None \<Rightarrow> slug j | Some v \<Rightarrow> v),
       status := (case p_status p of None \<Rightarrow> status j | Some v \<Rightarrow> v),
       order := (case p_order p of None \<Rightarrow> order j | Some v \<Rightarrow> v),
       description := (case p_description p of None \<Rightarrow> description j | Some v \<Rightarrow> v),
       tags := (case p_tags p of None \<Rightarrow> tags j | Some v \<Rightarrow> v)\<rparr>"

definition apply_job_updates :: "job_updates \<Rightarrow> job \<Rightarrow> job" where
  "apply_job_updates u j = (case u of JobFields p \<Rightarrow> apply_job_patch p j | ReorderFields b \<Rightarrow> j)"

definition jobs_table_update :: "int option \<Rightarrow> job_updates \<Rightarrow> db \<Rightarrow> exn + db" where
  "jobs_table_update key changes d =
     (case key of
        None \<Rightarrow> Inl DataError
      | Some k \<Rightarrow>
          (case find (\<lambda>j. job_id j = k) (jobs d) of
             None \<Rightarrow> Inr d
           | Some j \<Rightarrow>
               if slug (apply_job_updates changes j)
                    \<in> slug ` set (filter (\<lambda>j'. job_id j' \<noteq> k) (jobs d))
               then Inl ConstraintError
               else Inr (d\<lparr>jobs :=
                            map (\<lambda>j'. if job_id j' = k then apply_job_updates changes j' else j')
                              (jobs d)\<rparr>)))"

text \<open>
  \<open>db.jobs.update(undefined, changes)\<close>: Dexie refuses the key before it looks at the
  table (\<open>Invalid key provided\<close>) and the promise rejects.
\<close>

definition jobs_update_undefined :: "db \<Rightarrow> exn + db" where
  "jobs_update_undefined d = Inl InvalidKey"

definition apply_candidate_patch :: "candidate_patch \<Rightarrow> candidate \<Rightarrow> candidate" where
  "apply_candidate_patch p c =
     c\<lparr>name := (case p_name p of None \<Rightarrow> name c | Some v \<Rightarrow> v),
       email := (case p_email p of None \<Rightarrow> email c | Some v \<Rightarrow> v),
       stage := (case p_stage p of None \<Rightarrow> stage c | Some v \<Rightarrow> v),
       jobId := (case p_jobId p of None \<Rightarrow> jobId c | Some v \<Rightarrow> v)\<rparr>"

definition candidates_table_update ::
  "int option \<Rightarrow> candidate_patch \<Rightarrow> db \<Rightarrow> exn + db" where
  "candidates_table_update key changes d =
     (case key of
        None \<Rightarrow> Inl DataError
      | Some k \<Rightarrow>
          (case find (\<lambda>c. cand_id c = k) (candidates d) of
             None \<Rightarrow> Inr d
           | Some c \<Rightarrow>
               if email (apply_candidate_patch changes c)
                    \<in> email ` set (filter (\<lambda>c'. cand_id c' \<noteq> k) (candidates d))
               then Inl ConstraintError
               else Inr (d\<lparr>candidates :=
                            map (\<lambda>c'. if cand_id c' = k then apply_candidate_patch changes c'
                                      else c')
                              (candidates d)\<rparr>)))"

text \<open>
  \<open>db.jobs.bulkUpdate([{key, changes: {order}}])\<close>: every entry whose key is stored has
  its \<open>order\<close> set, an entry whose key is not stored is skipped.
\<close>

definition set_order :: "int \<times> int \<Rightarrow> job list \<Rightarrow> job list" where
  "set_order u js = map (\<lambda>j. if job_id j = fst u then j\<lparr>order := snd u\<rparr> else j) js"

definition jobs_bulkUpdate :: "(int \<times> int) list \<Rightarrow> db \<Rightarrow> db" where
  "jobs_bulkUpdate updates d = d\<lparr>jobs := foldl (\<lambda>js u. set_order u js) (jobs d) updates\<rparr>"

text \<open>\<open>db.jobs.orderBy('order').last()\<close>.\<close>

definition last_by_order :: "job list \<Rightarrow> job option" where
  "last_by_order js = (if js = [] then None else Some (last (sort_key order js)))"

text \<open>\<open>collection.offset(n)\<close> and \<open>collection.limit(n)\<close>.\<close>

definition offset :: "int \<Rightarrow> 'a list \<Rightarrow> 'a list" where
  "offset n xs = (if n \<le> 0 then xs else drop (nat n) xs)"

definition limit :: "int \<Rightarrow> 'a list \<Rightarrow> 'a list" where
  "limit n xs = take (nat n) xs"

text \<open>
  \<open>collection.sortBy(keyPath)\<close> reads the collection into an array and sorts it with
  \<open>Array.prototype.sort\<close>, which is stable, by the value under \<open>keyPath\<close>. The sort
  parameter is typed as one of the indexed fields of the jobs table.
\<close>

datatype sort_field = ById | ByTitle | BySlug | ByStatus | ByOrder | ByCreatedAt

datatype jskey = KNum int | KStr string

fun jskey_le :: "jskey \<Rightarrow> jskey \<Rightarrow> bool" where
  "jskey_le (KNum a) (KNum b) = (a \<le> b)"
| "jskey_le (KStr a) (KStr b) = (a \<le> b)"
| "jskey_le (KNum a) (KStr b) = True"
| "jskey_le (KStr a) (KNum b) = False"

instantiation jskey :: linorder
begin

definition less_eq_jskey :: "jskey \<Rightarrow> jskey \<Rightarrow> bool" where
  "less_eq_jskey a b = jskey_le a b"

definition less_jskey :: "jskey \<Rightarrow> jskey \<Rightarrow> bool" where
  "less_jskey a b = (jskey_le a b \<and> \<not> jskey_le b a)"

instance
proof
  fix x y z :: jskey
  show "(x < y) = (x \<le> y \<and> \<not> y \<le> x)"
    by (simp add: less_eq_jskey_def less_jskey_def)
  show "x \<le> x"
    by (cases x) (simp_all add: less_eq_jskey_def)
  show "x \<le> y \<Longrightarrow> y \<le> z \<Longrightarrow> x \<le> z"
    by (cases x; cases y; cases z) (simp_all add: less_eq_jskey_def)
  show "x \<le> y \<Longrightarrow> y \<le> x \<Longrightarrow> x = y"
    by (cases x; cases y) (simp_all add: less_eq_jskey_def)
  show "x \<le> y \<or> y \<le> x"
    by (cases x; cases y) (auto simp: less_eq_jskey_def)
qed

end

fun getval :: "sort_field \<Rightarrow> job \<Rightarrow> jskey" where
  "getval ById j = KNum (job_id j)"
| "getval ByTitle j = KStr (title j)"
| "getval BySlug j = KStr (slug j)"
| "getval ByStatus j = KStr (status j)"
| "getval ByOrder j = KNum (order j)"
| "getval ByCreatedAt j = KStr (job_createdAt j)"

definition sortBy :: "sort_field \<Rightarrow> job list \<Rightarrow> job list" where
  "sortBy keyPath xs = sort_key (getval keyPath) xs"

section \<open>The resolvers (\<open>handlers.js\<close>)\<close>

text \<open>\<open>simulateError(rate)\<close> is \<open>Math.random() < rate\<close>; the draw is an input.\<close>

definition simulateError :: "real \<Rightarrow> real \<Rightarrow> bool" where
  "simulateError rate rnd = (rnd < rate)"

text \<open>\<open>x || d\<close> for a query parameter, which is a string or \<open>null\<close>.\<close>

definition or_default :: "string option \<Rightarrow> string \<Rightarrow> string" where
  "or_default x d = (case x of None \<Rightarrow> d | Some v \<Rightarrow> if v = [] then d else v)"

subsection \<open>Jobs\<close>

text \<open>
  The query of a list request: each parameter is present or absent. \<open>page\<close> and
  \<open>pageSize\<close> are held as the numbers \<open>parseInt\<close> reads from them, \<open>sort\<close> as the
  field it names.
\<close>

record jobs_query =
  jq_search :: "string option"
  jq_status :: "string option"
  jq_page :: "int option"
  jq_pageSize :: "int option"
  jq_sort :: "sort_field option"

definition job_matches :: "string \<Rightarrow> job \<Rightarrow> bool" where
  "job_matches lowerSearch j =
     (startsWith (toLowerCase (title j)) lowerSearch \<or> startsWith (toLowerCase (slug j)) lowerSearch)"

text \<open>The collection of \<open>GET /jobs\<close> before it is counted, sorted and sliced.\<close>

definition jobs_collection :: "string \<Rightarrow> string \<Rightarrow> db \<Rightarrow> job list" where
  "jobs_collection search st d =
     (let collection = (if st \<noteq> ''all'' then filter (\<lambda>j. status j = st) (jobs d) else jobs d)
      in if search \<noteq> [] then filter (job_matches (toLowerCase search)) collection
         else collection)"

definition GET_jobs :: "jobs_query \<Rightarrow> db \<Rightarrow> response" where
  "GET_jobs q d =
     (let search = or_default (jq_search q) [];
          st = or_default (jq_status q) ''all'';
          page = (case jq_page q of None \<Rightarrow> 1 | Some v \<Rightarrow> v);
          pageSize = (case jq_pageSize q of None \<Rightarrow> 10 | Some v \<Rightarrow> v);
          sort = (case jq_sort q of None \<Rightarrow> ByOrder | Some v \<Rightarrow> v);
          collection = jobs_collection search st d;
          n = int (length collection);
          js = js_slice (sortBy sort collection) ((page - 1) * pageSize) (page * pageSize)
      in HttpResponse_json
           (JobsPage js \<lparr>pg_page = page, pg_pageSize = pageSize, pg_total = n,
                         pg_totalPages = ceil_div n pageSize\<rparr>) 200)"

record job_input =
  in_title :: string
  in_slug :: string
  in_description :: string
  in_tags :: "string list"

definition POST_jobs :: "real \<Rightarrow> string \<Rightarrow> job_input \<Rightarrow> db \<Rightarrow> outcome \<times> db" where
  "POST_jobs rnd now newJob d =
     (if simulateError (1 / 10) rnd
      then (Inr (HttpResponse_json (Message ''Server failed to create job'') 500), d)
      else
        let lastJob = last_by_order (jobs d);
            newOrder = (case lastJob of None \<Rightarrow> 0 | Some j \<Rightarrow> order j) + 1;
            jobWithDefaults = (\<lambda>i. \<lparr>job_id = i, title = in_title newJob, slug = in_slug newJob,
                                     status = ''active'', order = newOrder, job_createdAt = now,
                                     description = in_description newJob, tags = in_tags newJob\<rparr>)
        in case jobs_add jobWithDefaults d of
             Inl e \<Rightarrow> (Inl e, d)
           | Inr (i, d') \<Rightarrow> (Inr (HttpResponse_json (JobBody (jobWithDefaults i)) 201), d'))"

text \<open>
  \<open>PATCH /jobs/:id\<close>. The path parameter goes through \<open>parseInt\<close>; then the body is
  read, which throws on text that is not JSON; then the table is updated under the parsed
  id.
\<close>

definition PATCH_jobs_id :: "real \<Rightarrow> uid \<Rightarrow> job_updates \<Rightarrow> db \<Rightarrow> outcome \<times> db" where
  "PATCH_jobs_id rnd id_param body d =
     (if simulateError (1 / 10) rnd
      then (Inr (HttpResponse_json (Message ''Failed to save changes'') 500), d)
      else
        let i = parseInt id_param
        in case body of
             ReorderFields Unparseable \<Rightarrow> (Inl SyntaxError, d)
           | updates \<Rightarrow>
               (case jobs_table_update i updates d of
                  Inl e \<Rightarrow> (Inl e, d)
                | Inr d' \<Rightarrow> (Inr (HttpResponse_json (JobPatched i updates) 200), d')))"

text \<open>
  \<open>PATCH /jobs/reorder\<close>. After \<open>bulkUpdate\<close> the resolver runs a second pass in a
  transaction, \<^verbatim>\<open>updates.map((u) => db.jobs.update(u.id, { order: u.order }))\<close>. An entry
  of \<open>updates\<close> is \<open>{key, changes}\<close>, so \<open>u.id\<close> is \<open>undefined\<close> in each call; the
  first call rejects, \<open>Promise.all\<close> and the transaction reject with it, and the resolver
  catches that. What \<open>bulkUpdate\<close> has written stays written: it ran before the
  transaction.
\<close>

definition second_pass :: "(int \<times> int) list \<Rightarrow> db \<Rightarrow> exn + db" where
  "second_pass updates d =
     foldl (\<lambda>r u. case r of Inl e \<Rightarrow> Inl e | Inr d' \<Rightarrow> jobs_update_undefined d') (Inr d) updates"

definition PATCH_jobs_reorder :: "real \<Rightarrow> reorder_body \<Rightarrow> db \<Rightarrow> outcome \<times> db" where
  "PATCH_jobs_reorder rnd payload d =
     (if simulateError (15 / 100) rnd
      then (Inr (HttpResponse_json (Message ''Failed to reorder jobs'') 500), d)
      else
        case payload of
          Unparseable \<Rightarrow> (Inr (HttpResponse_json (Message ''Invalid JSON payload'') 400), d)
        | NoArray \<Rightarrow> (Inr (HttpResponse_json (Message ''Invalid payload for reordering'') 400), d)
        | OrderedJobs orderedJobs \<Rightarrow>
            if orderedJobs = []
            then (Inr (HttpResponse_json (Message ''Invalid payload for reordering'') 400), d)
            else
              let updates = map (\<lambda>job. (fst job, snd job)) orderedJobs;
                  d' = jobs_bulkUpdate updates d
              in if updates = []
                 then (Inr (HttpResponse_json (Message ''No valid updates provided'') 400), d')
                 else
                   (case second_pass updates d' of
                      Inr d'' \<Rightarrow> (Inr (HttpResponse_json StatusOk 200), d'')
                    | Inl e \<Rightarrow>
                        (Inr (HttpResponse_json (Message ''Failed to reorder jobs (internal)'') 500),
                         d')))"

subsection \<open>Candidates\<close>

record candidates_query =
  cq_search :: "string option"
  cq_stage :: "string option"
  cq_page :: "int option"
  cq_pageSize :: "int option"

definition candidate_matches :: "string \<Rightarrow> candidate \<Rightarrow> bool" where
  "candidate_matches lowerSearch c =
     (startsWith (toLowerCase (name c)) lowerSearch \<or> startsWith (toLowerCase (email c)) lowerSearch)"

definition candidates_collection :: "string \<Rightarrow> string \<Rightarrow> db \<Rightarrow> candidate list" where
  "candidates_collection search st d =
     (let collection =
            (if st \<noteq> ''all'' then filter (\<lambda>c. stage c = st) (candidates d) else candidates d)
      in if search \<noteq> [] then filter (candidate_matches (toLowerCase search)) collection
         else collection)"

definition GET_candidates :: "candidates_query \<Rightarrow> db \<Rightarrow> response" where
  "GET_candidates q d =
     (let search = or_default (cq_search q) [];
          st = or_default (cq_stage q) ''all'';
          page = (case cq_page q of None \<Rightarrow> 1 | Some v \<Rightarrow> v);
          pageSize = (case cq_pageSize q of None \<Rightarrow> 1000 | Some v \<Rightarrow> v);
          collection = candidates_collection search st d;
          n = int (length collection);
          cs = limit pageSize (offset ((page - 1) * pageSize) collection)
      in HttpResponse_json
           (CandidatesPage cs \<lparr>pg_page = page, pg_pageSize = pageSize, pg_total = n,
                               pg_totalPages = ceil_div n pageSize\<rparr>) 200)"

record candidate_input =
  in_name :: string
  in_email :: string
  in_jobId :: int

definition POST_candidates ::
  "real \<Rightarrow> string \<Rightarrow> candidate_input \<Rightarrow> db \<Rightarrow> outcome \<times> db" where
  "POST_candidates rnd now newCandidate d =
     (if simulateError (1 / 10) rnd
      then (Inr (HttpResponse_json (Message ''Failed to create candidate'') 500), d)
      else
        let candidateWithDefaults =
              (\<lambda>i. \<lparr>cand_id = i, name = in_name newCandidate, email = in_email newCandidate,
                     stage = ''applied'', jobId = in_jobId newCandidate, cand_createdAt = now,
                     avatarUrl = ''https://api.dicebear.com/8.x/avataaars/svg?seed=''
                                 @ in_name newCandidate\<rparr>)
        in case candidates_add candidateWithDefaults d of
             Inl e \<Rightarrow> (Inl e, d)
           | Inr (i, d') \<Rightarrow>
               (Inr (HttpResponse_json (CandidateBody (candidateWithDefaults i)) 201), d'))"

definition PATCH_candidates_id ::
  "real \<Rightarrow> uid \<Rightarrow> candidate_patch \<Rightarrow> db \<Rightarrow> outcome \<times> db" where
  "PATCH_candidates_id rnd id_param updates d =
     (if simulateError (1 / 10) rnd
      then (Inr (HttpResponse_json (Message ''Failed to update candidate'') 500), d)
      else
        let i = parseInt id_param
        in case candidates_table_update i updates d of
             Inl e \<Rightarrow> (Inl e, d)
           | Inr d' \<Rightarrow> (Inr (HttpResponse_json (CandidatePatched i updates) 200), d'))"

text \<open>\<open>GET /candidates/:id/timeline\<close> answers with a fixed list.\<close>

definition GET_candidates_timeline :: response where
  \<open>GET_candidates_timeline =
     HttpResponse_json
       (TimelineBody
          [(1, ''Applied'', ''2025-10-20T10:00:00Z'', ''Applied via company portal.''),
           (2, ''AI Screen'', ''2025-10-20T10:01:00Z'',
            ''Resume matched 88% for "React" and "Node.js".''),
           (3, ''Stage Change'', ''2025-10-21T09:15:00Z'', ''Moved to Screen by HR (Jane Doe).''),
           (4, ''Assessment Sent'', ''2025-10-21T09:16:00Z'',
            ''React Fundamentals assessment sent.'')])
       200\<close>

subsection \<open>Assessments\<close>

text \<open>A number in a JSON body; \<open>NaN\<close> is written as \<open>null\<close>.\<close>

definition js_number :: "int option \<Rightarrow> json" where
  "js_number v = (case v of None \<Rightarrow> JNull | Some k \<Rightarrow> JNum k)"

text \<open>
  \<open>GET /assessments/:jobId\<close>: the stored assessment, which is \<open>{...data, jobId}\<close>, or a
  default skeleton.
\<close>

definition GET_assessments :: "uid \<Rightarrow> db \<Rightarrow> outcome" where
  "GET_assessments jobId_param d =
     (let jobId = parseInt jobId_param
      in case assessments_get jobId d of
           Inl e \<Rightarrow> Inl e
         | Inr (Some assessment) \<Rightarrow>
             Inr (HttpResponse_json (AssessmentStored jobId assessment) 200)
         | Inr None \<Rightarrow>
             Inr (HttpResponse_json
                    (AssessmentBody
                       (JObj [(''jobId'', js_number jobId),
                              (''title'', JStr ''New Assessment''),
                              (''sections'',
                               JArr [JObj [(''id'', JStr ''s1''),
                                           (''title'', JStr ''Default Section''),
                                           (''description'', JStr ''This is a default section.''),
                                           (''questions'', JArr [])]])]))
                    200))"

definition PUT_assessments :: "real \<Rightarrow> uid \<Rightarrow> json \<Rightarrow> db \<Rightarrow> outcome \<times> db" where
  "PUT_assessments rnd jobId_param assessmentData d =
     (if simulateError (1 / 10) rnd
      then (Inr (HttpResponse_json (Message ''Failed to save assessment'') 500), d)
      else
        let jobId = parseInt jobId_param
        in case assessments_put jobId assessmentData d of
             Inl e \<Rightarrow> (Inl e, d)
           | Inr d' \<Rightarrow> (Inr (HttpResponse_json (AssessmentBody assessmentData) 200), d'))"

definition POST_assessments_submit ::
  "real \<Rightarrow> string \<Rightarrow> uid \<Rightarrow> json \<Rightarrow> db \<Rightarrow> outcome \<times> db" where
  "POST_assessments_submit rnd now jobId_param submission d =
     (if simulateError (1 / 10) rnd
      then (Inr (HttpResponse_json (Message ''Failed to submit assessment'') 500), d)
      else
        let jobId = parseInt jobId_param;
            response = (\<lambda>i. \<lparr>ar_id = i, ar_submission = submission, ar_jobId = jobId,
                              ar_createdAt = now\<rparr>);
            (i, d') = assessmentResponses_add response d
        in (Inr (HttpResponse_json (ResponseBody (response i)) 201), d'))"

section \<open>The jobs board drag handler (\<open>JobsPage.jsx\<close>)\<close>

text \<open>
  The state of the page: the loaded window, the drag overlay, the filters
  (\<open>debouncedSearch\<close>, \<open>filters.status\<close>, \<open>filters.page\<close>), the pagination of the last
  answer, the toasts and the requests issued.
\<close>

record jobs_page =
  jp_jobs :: "job list"
  jp_activeJob :: "job option"
  jp_search :: string
  jp_status :: string
  jp_page :: int
  jp_pagination :: "pagination option"
  jp_toasts :: "toast list"
  jp_requests :: "reorder_body list"

definition is_job :: "uid \<Rightarrow> job \<Rightarrow> bool" where
  "is_job i j = (Num (job_id j) = i)"

text \<open>\<open>array.map((job, index) => ({...job, order: (filters.page - 1) * 10 + index}))\<close>.\<close>

definition with_order :: "int \<Rightarrow> job list \<Rightarrow> job list" where
  "with_order page js =
     map (\<lambda>(job, index). job\<lparr>order := (page - 1) * 10 + int index\<rparr>) (zip js [0..<length js])"

text \<open>
  \<open>handleDragEnd\<close> of the jobs board up to its \<open>await fetch\<close>: the new state, and the
  snapshot \<open>originalJobs\<close> when a request is in flight. The result is \<open>None\<close> when
  \<open>arrayMove\<close> would put \<open>undefined\<close> into the array.
\<close>

definition jobs_handleDragEnd_issue ::
  "drag_event \<Rightarrow> jobs_page \<Rightarrow> (jobs_page \<times> job list option) option" where
  "jobs_handleDragEnd_issue ev s0 =
     (let s = s0\<lparr>jp_activeJob := None\<rparr>
      in case over ev of
           None \<Rightarrow> Some (s, None)
         | Some overId \<Rightarrow>
             if active ev = overId then Some (s, None)
             else
               let js = jp_jobs s;
                   oldIndex = findIndex (is_job (active ev)) js;
                   newIndex = findIndex (is_job overId) js
               in case arrayMove js oldIndex newIndex of
                    None \<Rightarrow> None
                  | Some newJobsArray \<Rightarrow>
                      let newJobsWithOrder = with_order (jp_page s) newJobsArray;
                          apiPayload = map (\<lambda>j. (job_id j, order j)) newJobsWithOrder;
                          originalJobs = js
                      in Some (s\<lparr>jp_jobs := newJobsWithOrder,
                                 jp_requests := jp_requests s @ [OrderedJobs apiPayload]\<rparr>,
                               Some originalJobs))"

definition reorder_error_message :: "response \<Rightarrow> string" where
  "reorder_error_message res =
     (case res_body res of
        Message m \<Rightarrow> if m = [] then ''API Reorder failed'' else m
      | _ \<Rightarrow> ''API Reorder failed'')"

definition jobs_handleDragEnd_settle :: "response \<Rightarrow> job list \<Rightarrow> jobs_page \<Rightarrow> jobs_page" where
  "jobs_handleDragEnd_settle res originalJobs s =
     (if ok res then s\<lparr>jp_toasts := jp_toasts s @ [(''Job order saved!'', ''success'')]\<rparr>
      else s\<lparr>jp_toasts := jp_toasts s
                  @ [(''Error: '' @ reorder_error_message res @ ''. Reverting changes.'', ''error'')],
             jp_jobs := originalJobs\<rparr>)"

text \<open>
  \<open>handleDragEnd\<close> of the jobs board against a response, nothing else happening
  meanwhile. This is the handler alone; the effect of the page that a toast triggers
  follows in \<open>drop_on_jobs_board\<close>.
\<close>

definition jobs_handleDragEnd :: "response \<Rightarrow> drag_event \<Rightarrow> jobs_page \<Rightarrow> jobs_page option" where
  "jobs_handleDragEnd res ev s =
     (case jobs_handleDragEnd_issue ev s of
        None \<Rightarrow> None
      | Some (s', None) \<Rightarrow> Some s'
      | Some (s', Some originalJobs) \<Rightarrow> Some (jobs_handleDragEnd_settle res originalJobs s'))"

section \<open>Reading a response\<close>

definition jobs_of :: "response \<Rightarrow> job list" where
  "jobs_of res = (case res_body res of JobsPage js pg \<Rightarrow> js | _ \<Rightarrow> [])"

definition candidates_of :: "response \<Rightarrow> candidate list" where
  "candidates_of res = (case res_body res of CandidatesPage cs pg \<Rightarrow> cs | _ \<Rightarrow> [])"

definition pagination_of :: "response \<Rightarrow> pagination option" where
  "pagination_of res =
     (case res_body res of
        JobsPage js pg \<Rightarrow> Some pg
      | CandidatesPage cs pg \<Rightarrow> Some pg
      | _ \<Rightarrow> None)"

text \<open>The same request for another page.\<close>

definition jobs_page_no :: "jobs_query \<Rightarrow> db \<Rightarrow> int \<Rightarrow> job list" where
  "jobs_page_no q d p = jobs_of (GET_jobs (q\<lparr>jq_page := Some p\<rparr>) d)"

definition candidates_page_no :: "candidates_query \<Rightarrow> db \<Rightarrow> int \<Rightarrow> candidate list" where
  "candidates_page_no q d p = candidates_of (GET_candidates (q\<lparr>cq_page := Some p\<rparr>) d)"

section \<open>The \<open>handlers\<close> array\<close>

text \<open>
  The mock worker answers a request with the first entry of \<open>handlers\<close> whose method and
  path pattern match; \<open>:id\<close> matches any one segment. The entries are in the order of
  \<open>handlers.js\<close>.
\<close>

datatype verb = GET | POST | PATCH | PUT

datatype pat = Lit string | Param

datatype route =
    Jobs_list | Jobs_create | Jobs_patch | Jobs_reorder
  | Candidates_list | Candidates_create | Candidates_patch | Candidates_timeline
  | Assessments_get | Assessments_put | Assessments_submit

definition handlers :: "(verb \<times> pat list \<times> route) list" where
  "handlers =
     [(GET, [Lit ''jobs''], Jobs_list),
      (POST, [Lit ''jobs''], Jobs_create),
      (PATCH, [Lit ''jobs'', Param], Jobs_patch),
      (PATCH, [Lit ''jobs'', Lit ''reorder''], Jobs_reorder),
      (GET, [Lit ''candidates''], Candidates_list),
      (POST, [Lit ''candidates''], Candidates_create),
      (PATCH, [Lit ''candidates'', Param], Candidates_patch),
      (GET, [Lit ''candidates'', Param, Lit ''timeline''], Candidates_timeline),
      (GET, [Lit ''assessments'', Param], Assessments_get),
      (PUT, [Lit ''assessments'', Param], Assessments_put),
      (POST, [Lit ''assessments'', Param, Lit ''submit''], Assessments_submit)]"

text \<open>The path parameters when the pattern matches the path, in order.\<close>

fun matches :: "pat list \<Rightarrow> uid list \<Rightarrow> uid list option" where
  "matches [] [] = Some []"
| "matches (Lit l # ps) (seg # segs) = (if seg = Str l then matches ps segs else None)"
| "matches (Param # ps) (seg # segs) = map_option ((#) seg) (matches ps segs)"
| "matches [] (seg # segs) = None"
| "matches (p # ps) [] = None"

definition answering :: "verb \<Rightarrow> uid list \<Rightarrow> (route \<times> uid list) option" where
  "answering m path =
     (case find (\<lambda>(m', pt, r). m' = m \<and> matches pt path \<noteq> None) handlers of
        None \<Rightarrow> None
      | Some (m', pt, r) \<Rightarrow> map_option (Pair r) (matches pt path))"

text \<open>The requests of the application, each with its method and its path.\<close>

datatype request =
    ListJobs jobs_query
  | CreateJob job_input
  | PatchJob uid job_patch
  | ReorderJobs reorder_body
  | ListCandidates candidates_query
  | CreateCandidate candidate_input
  | PatchCandidate uid candidate_patch
  | CandidateTimeline uid
  | GetAssessment uid
  | PutAssessment uid json
  | SubmitAssessment uid json

fun method_of :: "request \<Rightarrow> verb" where
  "method_of (ListJobs q) = GET"
| "method_of (CreateJob j) = POST"
| "method_of (PatchJob i p) = PATCH"
| "method_of (ReorderJobs b) = PATCH"
| "method_of (ListCandidates q) = GET"
| "method_of (CreateCandidate c) = POST"
| "method_of (PatchCandidate i p) = PATCH"
| "method_of (CandidateTimeline i) = GET"
| "method_of (GetAssessment i) = GET"
| "method_of (PutAssessment i a) = PUT"
| "method_of (SubmitAssessment i a) = POST"

fun path_of :: "request \<Rightarrow> uid list" where
  "path_of (ListJobs q) = [Str ''jobs'']"
| "path_of (CreateJob j) = [Str ''jobs'']"
| "path_of (PatchJob i p) = [Str ''jobs'', i]"
| "path_of (ReorderJobs b) = [Str ''jobs'', Str ''reorder'']"
| "path_of (ListCandidates q) = [Str ''candidates'']"
| "path_of (CreateCandidate c) = [Str ''candidates'']"
| "path_of (PatchCandidate i p) = [Str ''candidates'', i]"
| "path_of (CandidateTimeline i) = [Str ''candidates'', i, Str ''timeline'']"
| "path_of (GetAssessment i) = [Str ''assessments'', i]"
| "path_of (PutAssessment i a) = [Str ''assessments'', i]"
| "path_of (SubmitAssessment i a) = [Str ''assessments'', i, Str ''submit'']"

text \<open>
  The resolver of a route on a request. A resolver reads the path parameters the match
  gave it and the body or the query of the request.
\<close>

definition run ::
  "route \<Rightarrow> uid list \<Rightarrow> real \<Rightarrow> string \<Rightarrow> request \<Rightarrow> db \<Rightarrow> outcome \<times> db" where
  "run r params rnd now req d =
     (case req of
        ListJobs q \<Rightarrow> if r = Jobs_list then (Inr (GET_jobs q d), d) else (Inl NotMocked, d)
      | CreateJob j \<Rightarrow> if r = Jobs_create then POST_jobs rnd now j d else (Inl NotMocked, d)
      | PatchJob i p \<Rightarrow>
          (case params of
             [seg] \<Rightarrow> if r = Jobs_patch then PATCH_jobs_id rnd seg (JobFields p) d
                      else (Inl NotMocked, d)
           | _ \<Rightarrow> (Inl NotMocked, d))
      | ReorderJobs b \<Rightarrow>
          (case params of
             [seg] \<Rightarrow> if r = Jobs_patch then PATCH_jobs_id rnd seg (ReorderFields b) d
                      else (Inl NotMocked, d)
           | [] \<Rightarrow> if r = Jobs_reorder then PATCH_jobs_reorder rnd b d else (Inl NotMocked, d)
           | _ \<Rightarrow> (Inl NotMocked, d))
      | ListCandidates q \<Rightarrow>
          if r = Candidates_list then (Inr (GET_candidates q d), d) else (Inl NotMocked, d)
      | CreateCandidate c \<Rightarrow>
          if r = Candidates_create then POST_candidates rnd now c d else (Inl NotMocked, d)
      | PatchCandidate i p \<Rightarrow>
          (case params of
             [seg] \<Rightarrow> if r = Candidates_patch then PATCH_candidates_id rnd seg p d
                      else (Inl NotMocked, d)
           | _ \<Rightarrow> (Inl NotMocked, d))
      | CandidateTimeline i \<Rightarrow>
          if r = Candidates_timeline then (Inr GET_candidates_timeline, d) else (Inl NotMocked, d)
      | GetAssessment i \<Rightarrow>
          (case params of
             [seg] \<Rightarrow> if r = Assessments_get then (GET_assessments seg d, d)
                      else (Inl NotMocked, d)
           | _ \<Rightarrow> (Inl NotMocked, d))
      | PutAssessment i a \<Rightarrow>
          (case params of
             [seg] \<Rightarrow> if r = Assessments_put then PUT_assessments rnd seg a d
                      else (Inl NotMocked, d)
           | _ \<Rightarrow> (Inl NotMocked, d))
      | SubmitAssessment i a \<Rightarrow>
          (case params of
             [seg] \<Rightarrow> if r = Assessments_submit then POST_assessments_submit rnd now seg a d
                      else (Inl NotMocked, d)
           | _ \<Rightarrow> (Inl NotMocked, d)))"

definition dispatch :: "real \<Rightarrow> string \<Rightarrow> request \<Rightarrow> db \<Rightarrow> outcome \<times> db" where
  "dispatch rnd now req d =
     (case answering (method_of req) (path_of req) of
        None \<Rightarrow> (Inl NotMocked, d)
      | Some (r, params) \<Rightarrow> run r params rnd now req d)"

text \<open>
  What \<open>fetch\<close> resolves with. An exception a resolver does not catch is answered by
  the mock worker with status 500 and the error in the body; the model writes the name
  of the error for its message.
\<close>

definition exn_message :: "exn \<Rightarrow> string" where
  "exn_message e =
     (case e of
        ConstraintError \<Rightarrow> ''ConstraintError''
      | DataError \<Rightarrow> ''DataError''
      | InvalidKey \<Rightarrow> ''Invalid key provided''
      | SyntaxError \<Rightarrow> ''SyntaxError''
      | NotMocked \<Rightarrow> ''Not Found'')"

definition respond :: "outcome \<Rightarrow> response" where
  "respond out =
     (case out of Inl e \<Rightarrow> HttpResponse_json (Message (exn_message e)) 500 | Inr res \<Rightarrow> res)"

section \<open>The pages against the mock API\<close>






definition fetchJobs :: "db \<Rightarrow> jobs_page \<Rightarrow> jobs_page" where
  "fetchJobs d s =
     (let params = \<lparr>jq_search = Some (jp_search s), jq_status = Some (jp_status s),
                     jq_page = Some (jp_page s), jq_pageSize = Some 10, jq_sort = Some ByOrder\<rparr>;
          res = respond (fst (dispatch 0 [] (ListJobs params) d))
      in if \<not> ok res
         then s\<lparr>jp_toasts := jp_toasts s @ [(''Failed to fetch jobs'', ''error'')]\<rparr>
         else s\<lparr>jp_jobs := jobs_of res, jp_pagination := pagination_of res\<rparr>)"

definition jobs_effect :: "db \<Rightarrow> jobs_page \<Rightarrow> jobs_page \<Rightarrow> jobs_page" where
  "jobs_effect d before after =
     (if jp_toasts after \<noteq> jp_toasts before then fetchJobs d after else after)"

text \<open>A drop on the jobs board with its request answered by the mock API.\<close>

definition drop_on_jobs_board ::
  "real \<Rightarrow> string \<Rightarrow> drag_event \<Rightarrow> jobs_page \<times> db \<Rightarrow> (jobs_page \<times> db) option" where
  "drop_on_jobs_board rnd now ev sd =
     (let (s, d) = sd
      in case jobs_handleDragEnd_issue ev s of
           None \<Rightarrow> None
         | Some (s1, None) \<Rightarrow> Some (s1, d)
         | Some (s1, Some originalJobs) \<Rightarrow>
             let (out, d') = dispatch rnd now (ReorderJobs (last (jp_requests s1))) d;
                 s2 = jobs_handleDragEnd_settle (respond out) originalJobs s1
             in Some (jobs_effect d' s1 s2, d'))"

section \<open>The contract in the specification's words\<close>

text \<open>
  A case-insensitive prefix match: the field is at least as long as the search string and
  its first characters are those of the search string up to letter case.
\<close>

definition starts_with_ignoring_case :: "string \<Rightarrow> string \<Rightarrow> bool" where
  "starts_with_ignoring_case field search =
     (length search \<le> length field
      \<and> list_all2 (\<lambda>a b. lower_char a = lower_char b) (take (length search) field) search)"

text \<open>The status equality filter first, then the prefix match.\<close>

definition filter_then_match :: "string \<Rightarrow> string \<Rightarrow> job list \<Rightarrow> job list" where
  "filter_then_match search st table =
     filter (\<lambda>j. starts_with_ignoring_case (title j) search \<or> starts_with_ignoring_case (slug j) search)
       (filter (\<lambda>j. st = ''all'' \<or> status j = st) table)"

text \<open>
  A stable sort on a field of a job: insertion sort on the field, numbers by \<open>\<le>\<close>,
  strings by the lexicographic order of the codes of their characters.
\<close>

definition stable_sort_on :: "sort_field \<Rightarrow> job list \<Rightarrow> job list" where
  "stable_sort_on fld xs =
     (case fld of
        ById \<Rightarrow> sort_key job_id xs
      | ByTitle \<Rightarrow> sort_key title xs
      | BySlug \<Rightarrow> sort_key slug xs
      | ByStatus \<Rightarrow> sort_key status xs
      | ByOrder \<Rightarrow> sort_key order xs
      | ByCreatedAt \<Rightarrow> sort_key job_createdAt xs)"

text \<open>A payload of the bulk reorder that is empty or malformed.\<close>

definition empty_or_malformed :: "reorder_body \<Rightarrow> bool" where
  "empty_or_malformed payload =
     (case payload of Unparseable \<Rightarrow> True | NoArray \<Rightarrow> True | OrderedJobs ps \<Rightarrow> ps = [])"

section \<open>Example data\<close>

definition cand1 :: candidate where
  "cand1 = \<lparr>cand_id = 1, name = ''Tara Nair'', email = ''tara-nair.0@example.com'',
     stage = ''applied'', jobId = 3, cand_createdAt = ''2025-10-20T10:00:00Z'',
     avatarUrl = ''seed=Tara Nair''\<rparr>"

definition cand2 :: candidate where
  "cand2 = \<lparr>cand_id = 2, name = ''Veer Shah'', email = ''veer-shah.1@example.com'',
     stage = ''screen'', jobId = 3, cand_createdAt = ''2025-10-21T10:00:00Z'',
     avatarUrl = ''seed=Veer Shah''\<rparr>"

definition board0 :: candidates_page where
  "board0 = \<lparr>cp_candidates = [cand1, cand2], cp_activeCandidate = None, cp_toasts = [],
     cp_requests = []\<rparr>"

definition job1 :: job where
  "job1 = \<lparr>job_id = 1, title = ''Senior Backend Developer'', slug = ''senior-backend-developer-1'',
     status = ''active'', order = 0, job_createdAt = ''2025-09-01T08:00:00Z'',
     description = ''Description for Senior Backend Developer'', tags = [''Go'', ''Kubernetes'']\<rparr>"

definition job2 :: job where
  "job2 = \<lparr>job_id = 2, title = ''Backend Developer'', slug = ''backend-developer-2'',
     status = ''active'', order = 1, job_createdAt = ''2025-09-02T08:00:00Z'',
     description = ''Description for Backend Developer'', tags = [''Python'', ''AWS'']\<rparr>"

definition job3 :: job where
  "job3 = \<lparr>job_id = 3, title = ''UX/UI Designer'', slug = ''uxui-designer-3'',
     status = ''archived'', order = 1, job_createdAt = ''2025-09-03T08:00:00Z'',
     description = ''Description for UX/UI Designer'', tags = [''UX'', ''Figma'']\<rparr>"

definition db0 :: db where
  "db0 = \<lparr>jobs = [job1, job2, job3], jobs_keygen = 4,
     candidates = [cand1, cand2], candidates_keygen = 3,
     assessments = [], assessmentResponses = [], assessmentResponses_keygen = 1\<rparr>"

definition failed :: response where
  "failed = HttpResponse_json (Message ''Failed to update candidate'') 500"

definition drag_to_tech :: drag_event where
  "drag_to_tech = \<lparr>active = Num 1, over = Some (Str ''tech'')\<rparr>"


definition drag_to_applied :: drag_event where
  "drag_to_applied = \<lparr>active = Num 1, over = Some (Str ''applied'')\<rparr>"


definition patch_tech :: candidate_patch where
  "patch_tech = \<lparr>p_name = None, p_email = None, p_stage = Some ''tech'', p_jobId = None\<rparr>"

definition patch_archive :: job_patch where
  "patch_archive = \<lparr>p_title = None, p_slug = None, p_status = Some ''archived'', p_order = None,
     p_description = None, p_tags = None\<rparr>"

definition input_job :: job_input where
  "input_job = \<lparr>in_title = ''Backend Engineer'', in_slug = ''backend-engineer'',
     in_description = [], in_tags = []\<rparr>"

definition input_candidate :: candidate_input where
  "input_candidate = \<lparr>in_name = ''Riya Jain'', in_email = ''riya@example.com'', in_jobId = 1\<rparr>"

text \<open>A store of twelve jobs numbered as the seed numbers them, and its second page.\<close>

definition seed_job :: "nat \<Rightarrow> job" where
  "seed_job i = \<lparr>job_id = int i + 1, title = ''Job'', slug = replicate (Suc i) CHR ''j'',
     status = ''active'', order = int i, job_createdAt = ''2025-09-01T08:00:00Z'',
     description = [], tags = []\<rparr>"

definition seeded :: db where
  "seeded = \<lparr>jobs = map seed_job [0..<12], jobs_keygen = 13,
     candidates = [], candidates_keygen = 1,
     assessments = [], assessmentResponses = [], assessmentResponses_keygen = 1\<rparr>"

definition board_query :: "int \<Rightarrow> jobs_query" where
  "board_query p = \<lparr>jq_search = Some [], jq_status = Some ''all'', jq_page = Some p,
     jq_pageSize = Some 10, jq_sort = Some ByOrder\<rparr>"

definition second_page :: jobs_page where
  "second_page = \<lparr>jp_jobs = [seed_job 10, seed_job 11], jp_activeJob = None, jp_search = [],
     jp_status = ''all'', jp_page = 2, jp_pagination = None, jp_toasts = [], jp_requests = []\<rparr>"

definition drag_11_over_12 :: drag_event where
  "drag_11_over_12 = \<lparr>active = Num 11, over = Some (Num 12)\<rparr>"

definition second_page_dragged :: jobs_page where
  "second_page_dragged =
     second_page\<lparr>jp_jobs := [(seed_job 11)\<lparr>order := 10\<rparr>, (seed_job 10)\<lparr>order := 11\<rparr>],
                  jp_requests := [OrderedJobs [(12, 10), (11, 11)]]\<rparr>"

definition seeded_reordered :: db where
  "seeded_reordered =
     seeded\<lparr>jobs := map seed_job [0..<10] @ [(seed_job 10)\<lparr>order := 11\<rparr>, (seed_job 11)\<lparr>order := 10\<rparr>]\<rparr>"

definition one_per_page :: candidates_query where
  "one_per_page = \<lparr>cq_search = None, cq_stage = None, cq_page = None, cq_pageSize = Some 1\<rparr>"

text \<open>A table whose orders are not ascending, with a tie, and two requests on it.\<close>

definition job_engineer :: job where
  "job_engineer = \<lparr>job_id = 1, title = ''Backend Engineer'', slug = ''backend-engineer-1'',
     status = ''active'', order = 3, job_createdAt = ''2025-09-01T08:00:00Z'',
     description = [], tags = []\<rparr>"

definition job_archived :: job where
  "job_archived = \<lparr>job_id = 2, title = ''Backend Developer'', slug = ''backend-developer-2'',
     status = ''archived'', order = 0, job_createdAt = ''2025-09-02T08:00:00Z'',
     description = [], tags = []\<rparr>"

definition job_senior :: job where
  "job_senior = \<lparr>job_id = 3, title = ''Senior Backend Developer'',
     slug = ''senior-backend-developer-3'', status = ''active'', order = 1,
     job_createdAt = ''2025-09-03T08:00:00Z'', description = [], tags = []\<rparr>"

definition job_lead :: job where
  "job_lead = \<lparr>job_id = 4, title = ''backend lead'', slug = ''lead-4'',
     status = ''active'', order = 1, job_createdAt = ''2025-09-04T08:00:00Z'',
     description = [], tags = []\<rparr>"

definition job_scientist :: job where
  "job_scientist = \<lparr>job_id = 5, title = ''Data Scientist'', slug = ''Back-office-data-5'',
     status = ''active'', order = 1, job_createdAt = ''2025-09-05T08:00:00Z'',
     description = [], tags = []\<rparr>"

definition job_intern :: job where
  "job_intern = \<lparr>job_id = 6, title = ''Backend Intern'', slug = ''backend-intern-6'',
     status = ''active'', order = 0, job_createdAt = ''2025-09-06T08:00:00Z'',
     description = [], tags = []\<rparr>"

definition shuffled :: db where
  "shuffled = \<lparr>jobs = [job_engineer, job_archived, job_senior, job_lead, job_scientist,
                          job_intern],
     jobs_keygen = 7, candidates = [], candidates_keygen = 1,
     assessments = [], assessmentResponses = [], assessmentResponses_keygen = 1\<rparr>"

definition back_query :: jobs_query where
  "back_query = \<lparr>jq_search = Some ''BACK'', jq_status = Some ''active'', jq_page = Some 2,
     jq_pageSize = Some 2, jq_sort = None\<rparr>"

definition form_query :: jobs_query where
  "form_query = \<lparr>jq_search = None, jq_status = Some ''active'', jq_page = None,
     jq_pageSize = Some 1000, jq_sort = None\<rparr>"

section \<open>Auxiliary facts\<close>

lemma STAGE_IDS_eq:
  "STAGE_IDS = [''applied'', ''screen'', ''tech'', ''offer'', ''hired'', ''rejected'']"
  by (simp add: STAGE_IDS_def CANDIDATE_STAGES_def)

lemma find_has_id_stage:
  "find (has_id i) cs = Some c \<Longrightarrow> findContainer cs i = Some (stage c)"
  by (cases i) (auto simp: findContainer_def has_id_def dest: find_Some_iff[THEN iffD1])

lemma job_id_seed_job: "job_id (seed_job i) = int i + 1"
  by (simp add: seed_job_def)

lemma find_None_iff_image: "find (\<lambda>x. f x = k) xs = None \<longleftrightarrow> k \<notin> f ` set xs"
  by (auto simp: find_None_iff)

subsection \<open>The Kanban handlers\<close>

lemma findIndex_ge: "- 1 \<le> findIndex P xs"
  by (induction xs) (auto simp: Let_def)

lemma findIndex_None: "find P xs = None \<Longrightarrow> findIndex P xs = - 1"
  by (induction xs) (auto simp: Let_def split: if_splits)

lemma findIndex_Some:
  "find P xs = Some x \<Longrightarrow>
     0 \<le> findIndex P xs \<and> nat (findIndex P xs) < length xs \<and> xs ! nat (findIndex P xs) = x"
proof (induction xs)
  case Nil
  then show ?case by simp
next
  case (Cons y ys)
  show ?case
  proof (cases "P y")
    case True
    with Cons.prems show ?thesis by simp
  next
    case False
    with Cons.prems have f: "find P ys = Some x" by simp
    from Cons.IH[OF f] False show ?thesis
      by (simp add: Let_def nat_add_distrib)
  qed
qed

lemma find_update_first:
  "find P xs = Some x \<Longrightarrow> P y \<Longrightarrow> find P (xs[nat (findIndex P xs) := y]) = Some y"
proof (induction xs)
  case Nil
  then show ?case by simp
next
  case (Cons z zs)
  show ?case
  proof (cases "P z")
    case True
    with Cons.prems show ?thesis by simp
  next
    case False
    with Cons.prems have f: "find P zs = Some x" by simp
    from findIndex_Some[OF f] have "0 \<le> findIndex P zs" by simp
    then have "nat (findIndex P zs + 1) = Suc (nat (findIndex P zs))" by simp
    with Cons.IH[OF f Cons.prems(2)] False show ?thesis
      using \<open>0 \<le> findIndex P zs\<close> by (simp add: Let_def)
  qed
qed

lemma find_update_other:
  "i < length xs \<Longrightarrow> \<not> Q (xs ! i) \<Longrightarrow> \<not> Q y \<Longrightarrow> find Q (xs[i := y]) = find Q xs"
proof (induction xs arbitrary: i)
  case Nil
  then show ?case by simp
next
  case (Cons z zs)
  then show ?case by (cases i) auto
qed

lemma find_has_id_Str: "find (has_id (Str x)) cs = None"
  by (simp add: find_None_iff has_id_def)

lemma stage_id_nonempty: "x \<in> set STAGE_IDS \<Longrightarrow> x \<noteq> []"
  by (auto simp: STAGE_IDS_eq)

lemma findContainer_cases:
  "findContainer cs i = (if (\<exists>x. i = Str x \<and> x \<in> set STAGE_IDS) then Some (case i of Str x \<Rightarrow> x | Num n \<Rightarrow> [])
     else map_option stage (find (has_id i) cs))"
  by (cases i) (auto simp: findContainer_def)

text \<open>
  Once \<open>handleDragOver\<close> has run for an event, \<open>handleDragEnd\<close> for the same event finds
  the dragged candidate already in the column under the pointer and returns before its
  \<open>fetch\<close>, whatever stage the candidate had before the preview.
\<close>

lemma drop_after_its_preview_issues_no_request:
  assumes inv: "\<forall>c \<in> set (cp_candidates s). stage c \<noteq> []"
  shows "cp_requests (handleDragEnd res ev (handleDragOver ev s)) = cp_requests s"
proof (cases "over ev")
  case None
  then show ?thesis
    by (simp add: handleDragOver_def handleDragEnd_def handleDragEnd_issue_def Let_def)
next
  case (Some o_id)
  let ?cs = "cp_candidates s"
  let ?a = "active ev"
  show ?thesis
  proof (cases "find (has_id ?a) ?cs")
    case None
    then have idx: "findIndex (has_id ?a) ?cs = - 1" by (rule findIndex_None)
    have same: "cp_candidates (handleDragOver ev s) = ?cs"
      using Some idx by (simp add: handleDragOver_def Let_def split: option.splits)
    have req: "cp_requests (handleDragOver ev s) = cp_requests s"
      by (simp add: handleDragOver_def Let_def split: option.splits)
    show ?thesis
      using Some None same req
      by (simp add: handleDragEnd_def handleDragEnd_issue_def Let_def split: option.splits)
  next
    case found: (Some c)
    then have cin: "c \<in> set ?cs" and hc: "has_id ?a c"
      by (auto simp: find_Some_iff)
    from cin inv have cne: "stage c \<noteq> []" by simp
    have ac: "findContainer ?cs ?a = Some (stage c)"
      using found by (rule find_has_id_stage)
    have oc_truthy: "\<not> falsy (findContainer ?cs o_id)" if "findContainer ?cs o_id \<noteq> None"
    proof -
      from that obtain st where st: "findContainer ?cs o_id = Some st" by auto
      have "st \<noteq> []"
      proof (cases "\<exists>x. o_id = Str x \<and> x \<in> set STAGE_IDS")
        case True
        with st show ?thesis by (auto simp: findContainer_def stage_id_nonempty)
      next
        case False
        with st obtain c' where "find (has_id o_id) ?cs = Some c'" "stage c' = st"
          by (auto simp: findContainer_cases)
        with inv show ?thesis by (auto simp: find_Some_iff)
      qed
      with st show ?thesis by (simp add: falsy_def)
    qed
    show ?thesis
    proof (cases "findContainer ?cs o_id")
      case None
      then have nf: "find (has_id o_id) ?cs = None"
        by (cases o_id) (auto simp: findContainer_def split: if_splits)
      have "handleDragOver ev s = s"
        using Some None by (simp add: handleDragOver_def Let_def falsy_def)
      then show ?thesis
        using Some None nf
        by (simp add: handleDragEnd_def handleDragEnd_issue_def Let_def falsy_def)
    next
      case oc: (Some st)
      show ?thesis
      proof (cases "st = stage c")
        case True
        have "handleDragOver ev s = s"
          using Some oc ac True by (simp add: handleDragOver_def Let_def)
        then show ?thesis
          using Some oc found True
          by (simp add: handleDragEnd_def handleDragEnd_issue_def Let_def)
      next
        case False
        from oc_truthy oc have ot: "\<not> falsy (Some st)" by simp
        from cne have at: "\<not> falsy (Some (stage c))" by (simp add: falsy_def)
        let ?i = "nat (findIndex (has_id ?a) ?cs)"
        let ?cs' = "?cs[?i := (?cs ! ?i)\<lparr>stage := st\<rparr>]"
        from findIndex_Some[OF found] have idx: "0 \<le> findIndex (has_id ?a) ?cs"
          and ilt: "?i < length ?cs" and ith: "?cs ! ?i = c" by simp_all
        have over_eq: "handleDragOver ev s = s\<lparr>cp_candidates := ?cs'\<rparr>"
          using Some oc ac False ot at idx
          by (simp add: handleDragOver_def Let_def)
        have fa: "find (has_id ?a) ?cs' = Some (c\<lparr>stage := st\<rparr>)"
          using find_update_first[OF found, of "c\<lparr>stage := st\<rparr>"] hc ith
          by (simp add: has_id_def)
        have oc': "findContainer ?cs' o_id = Some st"
        proof (cases "\<exists>x. o_id = Str x \<and> x \<in> set STAGE_IDS")
          case True
          with oc show ?thesis by (auto simp: findContainer_def)
        next
          case notcol: False
          have neq: "o_id \<noteq> ?a"
          proof
            assume "o_id = ?a"
            with oc ac False show False by simp
          qed
          have "\<not> has_id o_id c" using hc neq by (auto simp: has_id_def)
          then have "find (has_id o_id) ?cs' = find (has_id o_id) ?cs"
            using ilt ith by (intro find_update_other) (simp_all add: has_id_def)
          then have "findContainer ?cs' o_id = findContainer ?cs o_id"
            using notcol by (simp only: findContainer_cases if_False)
          with oc show ?thesis by simp
        qed
        show ?thesis
          using Some over_eq fa oc' ot
          by (simp add: handleDragEnd_def handleDragEnd_issue_def Let_def)
      qed
    qed
  qed
qed


lemma revert_stage_target:
  "c \<in> set (cp_candidates (revert_stage p m s)) \<Longrightarrow> has_id (pm_activeId p) c \<Longrightarrow> stage c = pm_oldStage p"
  by (auto simp: revert_stage_def has_id_def split: if_splits)

lemma failed_settle_is_revert:
  "\<not> ok res \<Longrightarrow> handleDragEnd_settle res p s = revert_stage p (error_message res) s"
  by (simp add: handleDragEnd_settle_def)

lemma issue_old_stage:
  "handleDragEnd_issue ev s = (s', Some p) \<Longrightarrow>
     map_option stage (find (has_id (active ev)) (cp_candidates s)) = Some (pm_oldStage p)
     \<and> pm_activeId p = active ev \<and> cp_candidates s' = cp_candidates s
     \<and> cp_requests s' = cp_requests s @ [\<lparr>rq_id = active ev, rq_stage = pm_newStage p\<rparr>]"
  by (auto simp: handleDragEnd_issue_def Let_def split: option.splits if_splits)



lemma drop_without_preview_sends_one:
  "cp_requests (handleDragEnd failed drag_to_tech (handleDragStart drag_to_tech board0))
     = [\<lparr>rq_id = Num 1, rq_stage = Some ''tech''\<rparr>]"
  by (simp add: handleDragEnd_def handleDragEnd_issue_def handleDragEnd_settle_def
      revert_stage_def handleDragStart_def findContainer_def has_id_def
      falsy_def STAGE_IDS_eq ok_def failed_def HttpResponse_json_def
      drag_to_tech_def board0_def cand1_def cand2_def Let_def)
text \<open>
  A failed drop taken by itself leaves the candidates as they were at the drop: the stage
  it restores is the stage it has just read. The jobs board differs: its handler keeps the
  array from before its own optimistic update and puts that array back.
\<close>

lemma failed_drop_keeps_view:
  assumes "\<not> ok res" and "distinct (map cand_id (cp_candidates s))"
  shows "cp_candidates (handleDragEnd res ev s) = cp_candidates s"
proof (cases "handleDragEnd_issue ev s")
  case (Pair s' pending)
  show ?thesis
  proof (cases pending)
    case None
    with Pair show ?thesis
      by (auto simp: handleDragEnd_def handleDragEnd_issue_def Let_def
          split: option.splits if_splits)
  next
    case (Some p)
    from issue_old_stage[OF Pair[unfolded Some]]
    obtain c where c: "find (has_id (active ev)) (cp_candidates s) = Some c"
      and st: "stage c = pm_oldStage p" and a: "pm_activeId p = active ev"
      and same: "cp_candidates s' = cp_candidates s"
      by auto
    from c have cin: "c \<in> set (cp_candidates s)" and hc: "has_id (active ev) c"
      by (auto simp: find_Some_iff)
    have inj: "inj_on cand_id (set (cp_candidates s))"
      using assms(2) by (simp add: distinct_map)
    have "c' = c" if "c' \<in> set (cp_candidates s)" and "has_id (active ev) c'" for c'
    proof -
      from that(2) hc have "Num (cand_id c') = Num (cand_id c)" by (simp add: has_id_def)
      then have "cand_id c' = cand_id c" by simp
      with inj that(1) cin show ?thesis by (simp add: inj_on_eq_iff)
    qed
    then have "map (\<lambda>c'. if has_id (pm_activeId p) c' then c'\<lparr>stage := pm_oldStage p\<rparr> else c')
                 (cp_candidates s) = cp_candidates s"
      using st a by (intro map_idI) auto
    then show ?thesis
      using Pair Some same assms(1)
      by (simp add: handleDragEnd_def failed_settle_is_revert revert_stage_def)
  qed
qed

lemma jobs_rollback_restores_snapshot:
  assumes "\<not> ok res" and "jobs_handleDragEnd res ev s = Some s'"
  shows "jp_jobs s' = jp_jobs s"
  using assms
  by (auto simp: jobs_handleDragEnd_def jobs_handleDragEnd_issue_def jobs_handleDragEnd_settle_def
      Let_def split: option.splits if_splits)

subsection \<open>Which resolver answers a request\<close>

lemma parseInt_Num: "parseInt (Num n) = Some n"
  by (simp add: parseInt_def)

lemma parseInt_reorder: "parseInt (Str ''reorder'') = None"
  by (simp add: parseInt_def parseInt10_def is_space_def digit_of_def)

lemma dispatch_ListJobs: "dispatch rnd now (ListJobs q) d = (Inr (GET_jobs q d), d)"
  by (simp add: dispatch_def answering_def handlers_def run_def)

lemma dispatch_CreateJob: "dispatch rnd now (CreateJob j) d = POST_jobs rnd now j d"
  by (simp add: dispatch_def answering_def handlers_def run_def)

lemma dispatch_PatchJob:
  "dispatch rnd now (PatchJob seg p) d = PATCH_jobs_id rnd seg (JobFields p) d"
  by (simp add: dispatch_def answering_def handlers_def run_def)

text \<open>
  \<open>'/jobs/:id'\<close> stands before \<open>'/jobs/reorder'\<close> in the array and matches the path
  \<open>/jobs/reorder\<close> with \<open>id = 'reorder'\<close>: a reorder request is answered by the resolver
  of \<open>PATCH /jobs/:id\<close>.
\<close>

lemma answering_reorder:
  "answering PATCH [Str ''jobs'', Str ''reorder''] = Some (Jobs_patch, [Str ''reorder''])"
  by (simp add: answering_def handlers_def)

lemma dispatch_ReorderJobs:
  "dispatch rnd now (ReorderJobs b) d = PATCH_jobs_id rnd (Str ''reorder'') (ReorderFields b) d"
  by (simp add: dispatch_def answering_reorder run_def)


lemma dispatch_CreateCandidate:
  "dispatch rnd now (CreateCandidate c) d = POST_candidates rnd now c d"
  by (simp add: dispatch_def answering_def handlers_def run_def)

lemma dispatch_PatchCandidate:
  "dispatch rnd now (PatchCandidate seg p) d = PATCH_candidates_id rnd seg p d"
  by (simp add: dispatch_def answering_def handlers_def run_def)

lemma dispatch_PutAssessment:
  "dispatch rnd now (PutAssessment seg a) d = PUT_assessments rnd seg a d"
  by (simp add: dispatch_def answering_def handlers_def run_def)

lemma dispatch_SubmitAssessment:
  "dispatch rnd now (SubmitAssessment seg a) d = POST_assessments_submit rnd now seg a d"
  by (simp add: dispatch_def answering_def handlers_def run_def)

lemma respond_error: "respond (Inl e) = HttpResponse_json (Message (exn_message e)) 500"
  by (simp add: respond_def)

lemma respond_error_status: "res_status (respond (Inl e)) = 500 \<and> \<not> ok (respond (Inl e))"
  by (simp add: respond_def HttpResponse_json_def ok_def)

text \<open>
  The resolver of \<open>PATCH /jobs/:id\<close> on a reorder request: \<open>parseInt('reorder', 10)\<close> is
  \<open>NaN\<close>, the update under that key rejects, and nothing is written.
\<close>

lemma patch_route_on_reorder:
  "PATCH_jobs_id rnd (Str ''reorder'') (ReorderFields b) d
     = (if simulateError (1 / 10) rnd
        then (Inr (HttpResponse_json (Message ''Failed to save changes'') 500), d)
        else if b = Unparseable then (Inl SyntaxError, d) else (Inl DataError, d))"
  by (cases b)
     (simp_all add: PATCH_jobs_id_def parseInt_reorder jobs_table_update_def Let_def)

lemma routed_reorder_fails:
  "res_status (respond (fst (dispatch rnd now (ReorderJobs b) d))) = 500
   \<and> \<not> ok (respond (fst (dispatch rnd now (ReorderJobs b) d)))
   \<and> snd (dispatch rnd now (ReorderJobs b) d) = d"
  by (simp add: dispatch_ReorderJobs patch_route_on_reorder respond_def HttpResponse_json_def
      ok_def)

text \<open>
  The resolver of \<open>PATCH /jobs/reorder\<close> called by itself: an empty or malformed payload
  that passes the draw is answered with 400 and nothing is written; any other payload
  that passes the draw is written by \<open>bulkUpdate\<close> and then answered with 500, the second
  pass having rejected. No call is answered with a status in \<open>200..299\<close>.
\<close>

lemma second_pass_rejects: "updates \<noteq> [] \<Longrightarrow> second_pass updates d = Inl InvalidKey"
proof -
  have stuck: "foldl (\<lambda>r u. case r of Inl e \<Rightarrow> Inl e | Inr d' \<Rightarrow> jobs_update_undefined d')
                 (Inl InvalidKey) us = Inl InvalidKey" for us :: "(int \<times> int) list"
    by (induction us) simp_all
  assume "updates \<noteq> []"
  then obtain u us where "updates = u # us" by (cases updates) auto
  then show ?thesis
    by (simp add: second_pass_def jobs_update_undefined_def stuck)
qed

lemma reorder_resolver_validates:
  "empty_or_malformed payload \<Longrightarrow> \<not> simulateError (15 / 100) rnd \<Longrightarrow>
   PATCH_jobs_reorder rnd payload d
     = (Inr (HttpResponse_json
              (Message (if payload = Unparseable then ''Invalid JSON payload''
                        else ''Invalid payload for reordering'')) 400), d)"
  by (cases payload) (simp_all add: PATCH_jobs_reorder_def empty_or_malformed_def)

lemma reorder_resolver_writes_then_fails:
  "ps \<noteq> [] \<Longrightarrow> \<not> simulateError (15 / 100) rnd \<Longrightarrow>
   PATCH_jobs_reorder rnd (OrderedJobs ps) d
     = (Inr (HttpResponse_json (Message ''Failed to reorder jobs (internal)'') 500),
        jobs_bulkUpdate ps d)"
  by (simp add: PATCH_jobs_reorder_def Let_def second_pass_rejects)

lemma reorder_resolver_never_ok:
  "\<exists>res. fst (PATCH_jobs_reorder rnd payload d) = Inr res \<and> \<not> ok res"
proof (cases "simulateError (15 / 100) rnd")
  case True
  then show ?thesis
    by (simp add: PATCH_jobs_reorder_def ok_def HttpResponse_json_def)
next
  case False
  show ?thesis
  proof (cases "empty_or_malformed payload")
    case True
    from reorder_resolver_validates[OF True False, of d] show ?thesis
      by (simp add: ok_def HttpResponse_json_def)
  next
    case nonempty: False
    then obtain ps where "payload = OrderedJobs ps" "ps \<noteq> []"
      by (cases payload) (auto simp: empty_or_malformed_def)
    with reorder_resolver_writes_then_fails[OF this(2) False, of d] show ?thesis
      by (simp add: ok_def HttpResponse_json_def)
  qed
qed









section \<open>Rollback of a failed move\<close>



section \<open>Categorical move\<close>

text \<open>
  C6. A drop whose source stage equals its destination stage: the dragged candidate is in
  the view and the column (or card) under the pointer is in the candidate's own stage.
  Then \<open>handleDragOver\<close> changes nothing, \<open>handleDragEnd\<close> issues no request and leaves
  the candidates as they are (it only clears the drag overlay), and a whole drag from a
  state with no overlay ends in that same state.
\<close>

theorem same_stage_drop_is_noop:
  assumes "over ev = Some overId"
    and "find (has_id (active ev)) (cp_candidates s) = Some c"
    and "findContainer (cp_candidates s) overId = Some (stage c)"
  shows "handleDragOver ev s = s
       \<and> handleDragEnd_issue ev s = (s\<lparr>cp_activeCandidate := None\<rparr>, None)
       \<and> handleDragEnd res ev s = s\<lparr>cp_activeCandidate := None\<rparr>
       \<and> cp_requests (handleDragEnd res ev s) = cp_requests s
       \<and> cp_candidates (handleDragEnd res ev s) = cp_candidates s
       \<and> (cp_activeCandidate s = None \<longrightarrow>
            handleDragEnd res ev (handleDragOver ev (handleDragStart ev s)) = s)"
proof -
  have ac: "findContainer (cp_candidates s) (active ev) = Some (stage c)"
    using assms(2) by (rule find_has_id_stage)
  have over_id: "handleDragOver ev s = s"
    using assms(1,3) ac by (simp add: handleDragOver_def Let_def)
  have issue: "handleDragEnd_issue ev s = (s\<lparr>cp_activeCandidate := None\<rparr>, None)"
    using assms by (simp add: handleDragEnd_issue_def Let_def falsy_def)
  have fin: "handleDragEnd res ev s = s\<lparr>cp_activeCandidate := None\<rparr>"
    by (simp add: handleDragEnd_def issue)
  have start: "handleDragOver ev (handleDragStart ev s) = handleDragStart ev s"
    using assms(1,3) ac by (simp add: handleDragOver_def handleDragStart_def Let_def)
  have issue': "handleDragEnd_issue ev (handleDragStart ev s) = (s\<lparr>cp_activeCandidate := None\<rparr>, None)"
    using assms by (simp add: handleDragEnd_issue_def handleDragStart_def Let_def falsy_def)
  have sess: "cp_activeCandidate s = None \<longrightarrow>
            handleDragEnd res ev (handleDragOver ev (handleDragStart ev s)) = s"
    by (simp add: start handleDragEnd_def issue')
  show ?thesis using over_id issue fin sess by simp
qed

theorem same_stage_drop_is_noop_witness:
  "over drag_to_applied = Some (Str ''applied'')
   \<and> find (has_id (active drag_to_applied)) (cp_candidates board0) = Some cand1
   \<and> findContainer (cp_candidates board0) (Str ''applied'') = Some (stage cand1)
   \<and> handleDragOver drag_to_applied board0 = board0
   \<and> handleDragEnd failed drag_to_applied board0 = board0
   \<and> cp_requests (handleDragEnd failed drag_to_applied board0) = []
   \<and> handleDragEnd failed drag_to_applied
        (handleDragOver drag_to_applied (handleDragStart drag_to_applied board0)) = board0"
proof -
  have 1: "over drag_to_applied = Some (Str ''applied'')"
    by (simp add: drag_to_applied_def)
  have 2: "find (has_id (active drag_to_applied)) (cp_candidates board0) = Some cand1"
    by (simp add: drag_to_applied_def board0_def has_id_def cand1_def)
  have 3: "findContainer (cp_candidates board0) (Str ''applied'') = Some (stage cand1)"
    by (simp add: findContainer_def STAGE_IDS_eq cand1_def)
  show ?thesis
    using 1 2 3 same_stage_drop_is_noop[OF 1 2 3, of failed]
    by (simp add: board0_def)
qed

text \<open>
  C2. The candidate with id 1 is dragged from \<open>applied\<close> over the column \<open>tech\<close> and
  dropped there. The preview issues no request, and neither does the drop, whether the
  dispatcher would have failed or succeeded; the view shows the candidate in \<open>tech\<close>.
\<close>

theorem preview_then_drop_sends_nothing:
  "cp_requests (handleDragOver drag_to_tech (handleDragStart drag_to_tech board0)) = []
   \<and> cp_requests (handleDragEnd failed drag_to_tech
         (handleDragOver drag_to_tech (handleDragStart drag_to_tech board0))) = []
   \<and> cp_requests (handleDragEnd (HttpResponse_json (CandidatePatched (Some 1) patch_tech) 200) drag_to_tech
         (handleDragOver drag_to_tech (handleDragStart drag_to_tech board0))) = []
   \<and> map stage (cp_candidates (handleDragOver drag_to_tech (handleDragStart drag_to_tech board0)))
       = [''tech'', ''screen'']"
  by (simp add: handleDragEnd_def handleDragEnd_issue_def
      handleDragOver_def handleDragStart_def findContainer_def has_id_def
      falsy_def STAGE_IDS_eq
      drag_to_tech_def board0_def cand1_def cand2_def Let_def)


section \<open>Simulated failure\<close>

text \<open>
  C4. Each write resolver draws before it does anything else. When the draw is below the
  rate (0.1, and 0.15 for the bulk reorder) the resolver answers with status 500 and a
  \<open>message\<close>, and the tables afterwards are the tables before. A reorder request, which
  the resolver of \<open>PATCH /jobs/:id\<close> answers, is treated the same way at the rate 0.1.
\<close>

theorem simulated_failure_leaves_store:
  "(simulateError (1 / 10) rnd \<longrightarrow>
      POST_jobs rnd now newJob d
        = (Inr (HttpResponse_json (Message ''Server failed to create job'') 500), d)
    \<and> PATCH_jobs_id rnd i jp d
        = (Inr (HttpResponse_json (Message ''Failed to save changes'') 500), d)
    \<and> POST_candidates rnd now newCandidate d
        = (Inr (HttpResponse_json (Message ''Failed to create candidate'') 500), d)
    \<and> PATCH_candidates_id rnd i cp d
        = (Inr (HttpResponse_json (Message ''Failed to update candidate'') 500), d)
    \<and> PUT_assessments rnd k doc d
        = (Inr (HttpResponse_json (Message ''Failed to save assessment'') 500), d)
    \<and> POST_assessments_submit rnd now k doc d
        = (Inr (HttpResponse_json (Message ''Failed to submit assessment'') 500), d)
    \<and> dispatch rnd now (ReorderJobs payload) d
        = (Inr (HttpResponse_json (Message ''Failed to save changes'') 500), d))
   \<and> (simulateError (15 / 100) rnd \<longrightarrow>
      PATCH_jobs_reorder rnd payload d
        = (Inr (HttpResponse_json (Message ''Failed to reorder jobs'') 500), d))"
  by (simp add: POST_jobs_def PATCH_jobs_id_def POST_candidates_def PATCH_candidates_id_def
      PUT_assessments_def POST_assessments_submit_def PATCH_jobs_reorder_def
      dispatch_ReorderJobs)

theorem simulated_failure_leaves_store_witness:
  "simulateError (1 / 10) (1 / 20) \<and> simulateError (15 / 100) (1 / 20)
   \<and> POST_jobs (1 / 20) ''2025-11-01T00:00:00Z'' input_job db0
        = (Inr (HttpResponse_json (Message ''Server failed to create job'') 500), db0)
   \<and> PATCH_jobs_id (1 / 20) (Num 1) (JobFields patch_archive) db0
        = (Inr (HttpResponse_json (Message ''Failed to save changes'') 500), db0)
   \<and> POST_candidates (1 / 20) ''2025-11-01T00:00:00Z'' input_candidate db0
        = (Inr (HttpResponse_json (Message ''Failed to create candidate'') 500), db0)
   \<and> PATCH_candidates_id (1 / 20) (Num 1) patch_tech db0
        = (Inr (HttpResponse_json (Message ''Failed to update candidate'') 500), db0)
   \<and> PUT_assessments (1 / 20) (Num 1) (JObj [(''title'', JStr ''Screening'')]) db0
        = (Inr (HttpResponse_json (Message ''Failed to save assessment'') 500), db0)
   \<and> POST_assessments_submit (1 / 20) ''2025-11-01T00:00:00Z'' (Num 1)
        (JObj [(''title'', JStr ''Screening'')]) db0
        = (Inr (HttpResponse_json (Message ''Failed to submit assessment'') 500), db0)
   \<and> dispatch (1 / 20) ''2025-11-01T00:00:00Z'' (ReorderJobs (OrderedJobs [(2, 0), (1, 1)])) db0
        = (Inr (HttpResponse_json (Message ''Failed to save changes'') 500), db0)
   \<and> PATCH_jobs_reorder (1 / 20) (OrderedJobs [(2, 0), (1, 1)]) db0
        = (Inr (HttpResponse_json (Message ''Failed to reorder jobs'') 500), db0)"
proof -
  have a: "simulateError (1 / 10) (1 / 20)" and b: "simulateError (15 / 100) (1 / 20)"
    by (simp_all add: simulateError_def)
  show ?thesis
    using a b
      simulated_failure_leaves_store[where rnd = "1 / 20" and now = "''2025-11-01T00:00:00Z''"
        and newJob = input_job and d = db0 and i = "Num 1" and jp = "JobFields patch_archive"
        and newCandidate = input_candidate and cp = patch_tech and k = "Num 1"
        and doc = "JObj [(''title'', JStr ''Screening'')]"
        and payload = "OrderedJobs [(2, 0), (1, 1)]"]
    by simp
qed

section \<open>Patching an id that is not stored\<close>

text \<open>
  C10, as stated, fails for an id that \<open>parseInt\<close> does not read as a number. The
  segment \<open>reorder\<close> is the key of no stored job and \<open>abc\<close> the key of no stored
  candidate, the draw triggers no failure, and yet the call does not return success: the
  update under \<open>NaN\<close> rejects, the resolver ends with the error and the mock worker
  answers 500.
\<close>

theorem patch_non_numeric_id_is_rejected:
  "\<not> simulateError (1 / 10) (1 / 2)
   \<and> parseInt (Str ''reorder'') = None \<and> parseInt (Str ''abc'') = None
   \<and> PATCH_jobs_id (1 / 2) (Str ''reorder'') (JobFields patch_archive) db0 = (Inl DataError, db0)
   \<and> dispatch (1 / 2) ''2025-11-01T00:00:00Z'' (PatchJob (Str ''reorder'') patch_archive) db0
       = (Inl DataError, db0)
   \<and> PATCH_candidates_id (1 / 2) (Str ''abc'') patch_tech db0 = (Inl DataError, db0)
   \<and> dispatch (1 / 2) ''2025-11-01T00:00:00Z'' (PatchCandidate (Str ''abc'') patch_tech) db0
       = (Inl DataError, db0)
   \<and> res_status (respond (Inl DataError)) = 500
   \<and> \<not> ok (respond (Inl DataError))"
proof -
  have a: "\<not> simulateError (1 / 10) (1 / 2)"
    by (simp add: simulateError_def)
  have b: "parseInt (Str ''abc'') = None"
    by (simp add: parseInt_def parseInt10_def is_space_def digit_of_def)
  have j: "PATCH_jobs_id (1 / 2) (Str ''reorder'') (JobFields patch_archive) db0
             = (Inl DataError, db0)"
    using a by (simp add: PATCH_jobs_id_def parseInt_reorder jobs_table_update_def)
  have c: "PATCH_candidates_id (1 / 2) (Str ''abc'') patch_tech db0 = (Inl DataError, db0)"
    using a by (simp add: PATCH_candidates_id_def b candidates_table_update_def)
  show ?thesis
    using a b j c parseInt_reorder
    by (simp add: dispatch_PatchJob dispatch_PatchCandidate respond_error_status)
qed

text \<open>
  C10, amended. The draw triggers no failure. When \<open>parseInt\<close> reads the id segment as a
  number under which no job (no candidate) is stored, \<open>PATCH /jobs/:id\<close>
  (\<open>PATCH /candidates/:id\<close>) answers 200 with the body \<open>{id, ...updates}\<close> and the
  tables are unchanged: the update resolves with \<open>0\<close> and the resolver does not look at
  that number. When \<open>parseInt\<close> reads no number, the update rejects, the tables are
  unchanged and the answer is a 500. Neither resolver has a not-found answer.
\<close>

theorem patch_unstored_id:
  assumes "\<not> simulateError (1 / 10) rnd"
  shows "(parseInt seg = Some i \<and> i \<notin> job_id ` set (jobs d) \<longrightarrow>
            PATCH_jobs_id rnd seg (JobFields jp) d
              = (Inr (HttpResponse_json (JobPatched (Some i) (JobFields jp)) 200), d))
       \<and> (parseInt seg = Some i \<and> i \<notin> cand_id ` set (candidates d) \<longrightarrow>
            PATCH_candidates_id rnd seg cp d
              = (Inr (HttpResponse_json (CandidatePatched (Some i) cp) 200), d))
       \<and> ok (HttpResponse_json (JobPatched (Some i) (JobFields jp)) 200)
       \<and> ok (HttpResponse_json (CandidatePatched (Some i) cp) 200)
       \<and> (parseInt seg = None \<longrightarrow>
            PATCH_jobs_id rnd seg (JobFields jp) d = (Inl DataError, d)
            \<and> PATCH_candidates_id rnd seg cp d = (Inl DataError, d))
       \<and> res_status (respond (Inl DataError)) = 500
       \<and> dispatch rnd now (PatchJob seg jp) d = PATCH_jobs_id rnd seg (JobFields jp) d
       \<and> dispatch rnd now (PatchCandidate seg cp) d = PATCH_candidates_id rnd seg cp d"
  using assms
  by (simp add: PATCH_jobs_id_def PATCH_candidates_id_def jobs_table_update_def
      candidates_table_update_def find_None_iff_image[THEN iffD2] ok_def HttpResponse_json_def
      dispatch_PatchJob dispatch_PatchCandidate respond_def)

theorem patch_unstored_id_witness:
  "\<not> simulateError (1 / 10) (1 / 2)
   \<and> parseInt (Num 7) = Some 7 \<and> parseInt (Str ''7'') = Some 7
   \<and> 7 \<notin> job_id ` set (jobs db0) \<and> 7 \<notin> cand_id ` set (candidates db0)
   \<and> PATCH_jobs_id (1 / 2) (Num 7) (JobFields patch_archive) db0
        = (Inr (HttpResponse_json (JobPatched (Some 7) (JobFields patch_archive)) 200), db0)
   \<and> ok (HttpResponse_json (JobPatched (Some 7) (JobFields patch_archive)) 200)
   \<and> PATCH_candidates_id (1 / 2) (Str ''7'') patch_tech db0
        = (Inr (HttpResponse_json (CandidatePatched (Some 7) patch_tech) 200), db0)
   \<and> ok (HttpResponse_json (CandidatePatched (Some 7) patch_tech) 200)
   \<and> parseInt (Str ''reorder'') = None
   \<and> PATCH_jobs_id (1 / 2) (Str ''reorder'') (JobFields patch_archive) db0 = (Inl DataError, db0)
   \<and> PATCH_candidates_id (1 / 2) (Str ''reorder'') patch_tech db0 = (Inl DataError, db0)"
proof -
  have a: "\<not> simulateError (1 / 10) (1 / 2)" by (simp add: simulateError_def)
  have p: "parseInt (Str ''7'') = Some 7"
    by code_simp
  have b: "7 \<notin> job_id ` set (jobs db0)" by (simp add: db0_def job1_def job2_def job3_def)
  have c: "7 \<notin> cand_id ` set (candidates db0)" by (simp add: db0_def cand1_def cand2_def)
  note r1 = patch_unstored_id[OF a, where seg = "Num 7" and i = 7 and d = db0
      and jp = patch_archive and cp = patch_tech]
  note r2 = patch_unstored_id[OF a, where seg = "Str ''7''" and i = 7 and d = db0
      and jp = patch_archive and cp = patch_tech]
  note r3 = patch_unstored_id[OF a, where seg = "Str ''reorder''" and d = db0
      and jp = patch_archive and cp = patch_tech]
  have j: "PATCH_jobs_id (1 / 2) (Num 7) (JobFields patch_archive) db0
        = (Inr (HttpResponse_json (JobPatched (Some 7) (JobFields patch_archive)) 200), db0)"
    using r1 b by (simp add: parseInt_Num)
  have k: "PATCH_candidates_id (1 / 2) (Str ''7'') patch_tech db0
        = (Inr (HttpResponse_json (CandidatePatched (Some 7) patch_tech) 200), db0)"
    using r2 c p by simp
  have n: "PATCH_jobs_id (1 / 2) (Str ''reorder'') (JobFields patch_archive) db0
             = (Inl DataError, db0)
           \<and> PATCH_candidates_id (1 / 2) (Str ''reorder'') patch_tech db0 = (Inl DataError, db0)"
    using r3 parseInt_reorder by simp
  show ?thesis
    using a p b c j k n parseInt_reorder
    by (simp add: parseInt_Num ok_def HttpResponse_json_def)
qed

section \<open>Bulk reorder\<close>

subsection \<open>Validation\<close>

text \<open>
  C5. A reorder request is sent as \<open>PATCH /jobs/reorder\<close>. The resolver that validates
  the payload is registered under that path, but after \<open>'/jobs/:id'\<close>, which matches the
  path first. So, whatever the payload and the draw, the call is answered with status 500
  and nothing is written: an empty payload is not answered with 400, and no payload is
  answered with \<open>{status: "ok"}\<close>. The resolver registered under \<open>'/jobs/reorder'\<close>,
  called by itself with a draw that triggers no failure, does answer 400 to a payload that
  is empty, has no array, or is not JSON.
\<close>

theorem reorder_request_skips_validation:
  "answering PATCH [Str ''jobs'', Str ''reorder''] = Some (Jobs_patch, [Str ''reorder''])
   \<and> dispatch rnd now (ReorderJobs payload) d
       = PATCH_jobs_id rnd (Str ''reorder'') (ReorderFields payload) d
   \<and> res_status (respond (fst (dispatch rnd now (ReorderJobs payload) d))) = 500
   \<and> snd (dispatch rnd now (ReorderJobs payload) d) = d
   \<and> dispatch (1 / 2) now (ReorderJobs (OrderedJobs [])) db0 = (Inl DataError, db0)
   \<and> dispatch (1 / 2) now (ReorderJobs NoArray) db0 = (Inl DataError, db0)
   \<and> dispatch (1 / 2) now (ReorderJobs Unparseable) db0 = (Inl SyntaxError, db0)
   \<and> dispatch (1 / 2) now (ReorderJobs (OrderedJobs [(2, 0), (1, 1)])) db0 = (Inl DataError, db0)
   \<and> PATCH_jobs_reorder (1 / 2) (OrderedJobs []) db0
       = (Inr (HttpResponse_json (Message ''Invalid payload for reordering'') 400), db0)
   \<and> PATCH_jobs_reorder (1 / 2) NoArray db0
       = (Inr (HttpResponse_json (Message ''Invalid payload for reordering'') 400), db0)
   \<and> PATCH_jobs_reorder (1 / 2) Unparseable db0
       = (Inr (HttpResponse_json (Message ''Invalid JSON payload'') 400), db0)"
proof -
  have a: "\<not> simulateError (1 / 10) (1 / 2)" and b: "\<not> simulateError (15 / 100) (1 / 2)"
    by (simp_all add: simulateError_def)
  have routed: "dispatch (1 / 2) now (ReorderJobs p) db0
                  = (if p = Unparseable then (Inl SyntaxError, db0) else (Inl DataError, db0))"
    for p
    using a by (simp add: dispatch_ReorderJobs patch_route_on_reorder)
  have direct: "PATCH_jobs_reorder (1 / 2) (OrderedJobs []) db0
       = (Inr (HttpResponse_json (Message ''Invalid payload for reordering'') 400), db0)"
    "PATCH_jobs_reorder (1 / 2) NoArray db0
       = (Inr (HttpResponse_json (Message ''Invalid payload for reordering'') 400), db0)"
    "PATCH_jobs_reorder (1 / 2) Unparseable db0
       = (Inr (HttpResponse_json (Message ''Invalid JSON payload'') 400), db0)"
    using b by (simp_all add: PATCH_jobs_reorder_def)
  show ?thesis
    using answering_reorder dispatch_ReorderJobs[of rnd now payload d]
      routed_reorder_fails[of rnd now payload d] direct
    by (simp add: routed)
qed

lemma splice_delete1_mset:
  "splice_delete1 xs k = (item # r, rest) \<Longrightarrow> mset rest + {#item#} = mset xs"
proof -
  assume a: "splice_delete1 xs k = (item # r, rest)"
  define n where "n = rel_index k (length xs)"
  from a have t: "take 1 (drop n xs) = item # r" and rest: "rest = take n xs @ drop (Suc n) xs"
    by (simp_all add: splice_delete1_def n_def Let_def)
  from t have lt: "n < length xs" by (cases "n < length xs") auto
  from t lt have item: "item = xs ! n"
    by (metis Cons_nth_drop_Suc list.sel(1) take_Suc_Cons take_eq_Nil list.inject One_nat_def take0)
  have "xs = take n xs @ xs ! n # drop (Suc n) xs"
    using lt by (simp add: id_take_nth_drop[symmetric])
  then have "mset xs = mset (take n xs) + {#xs ! n#} + mset (drop (Suc n) xs)"
    by (metis mset.simps(2) mset_append union_mset_add_mset_right add_mset_add_single union_assoc union_commute)
  with rest item show ?thesis by simp
qed

lemma splice_insert_mset: "mset (splice_insert xs k item) = mset xs + {#item#}"
proof -
  have "mset (take n xs) + mset (drop n xs) = mset xs" for n
    by (metis append_take_drop_id mset_append)
  then show ?thesis by (simp add: splice_insert_def Let_def)
qed

lemma arrayMove_mset: "arrayMove xs f t = Some ys \<Longrightarrow> mset ys = mset xs"
  by (auto simp: arrayMove_def Let_def splice_insert_mset split: prod.splits list.splits
      dest: splice_delete1_mset)

lemma with_order_length: "length (with_order p js) = length js"
  by (simp add: with_order_def)

lemma with_order_nth:
  "i < length js \<Longrightarrow> with_order p js ! i = (js ! i)\<lparr>order := (p - 1) * 10 + int i\<rparr>"
  by (simp add: with_order_def)

lemma with_order_ids: "map job_id (with_order p js) = map job_id js"
  by (rule nth_equalityI) (simp_all add: with_order_length with_order_nth)

lemma with_order_orders:
  "map order (with_order p js) = map (\<lambda>i. (p - 1) * 10 + int i) [0..<length js]"
  by (rule nth_equalityI) (simp_all add: with_order_length with_order_nth)

lemma issue_reorder_shape:
  assumes "jobs_handleDragEnd_issue ev s = Some (s', Some originalJobs)"
  obtains moved where "arrayMove (jp_jobs s) (findIndex (is_job (active ev)) (jp_jobs s))
                          (findIndex (is_job (the (over ev))) (jp_jobs s)) = Some moved"
    and "jp_jobs s' = with_order (jp_page s) moved"
    and "jp_requests s' = jp_requests s @ [OrderedJobs (map (\<lambda>j. (job_id j, order j)) (jp_jobs s'))]"
    and "originalJobs = jp_jobs s"
  using assms
  by (auto simp: jobs_handleDragEnd_issue_def Let_def split: option.splits if_splits)

subsection \<open>The orders of the window\<close>

text \<open>
  The board gives the jobs of the loaded window, in their new order, the orders
  \<open>(page - 1) * 10 + index\<close>, and sends these.
\<close>

lemma window_gets_page_offsets:
  assumes "jobs_handleDragEnd_issue ev s = Some (s', Some originalJobs)"
  shows "mset (map job_id (jp_jobs s')) = mset (map job_id (jp_jobs s))
       \<and> map order (jp_jobs s')
           = map (\<lambda>i. (jp_page s - 1) * 10 + int i) [0..<length (jp_jobs s)]
       \<and> last (jp_requests s') = OrderedJobs (map (\<lambda>j. (job_id j, order j)) (jp_jobs s'))"
proof -
  from assms obtain moved where
    moved: "arrayMove (jp_jobs s) (findIndex (is_job (active ev)) (jp_jobs s))
              (findIndex (is_job (the (over ev))) (jp_jobs s)) = Some moved"
    and view: "jp_jobs s' = with_order (jp_page s) moved"
    and req: "jp_requests s' = jp_requests s @ [OrderedJobs (map (\<lambda>j. (job_id j, order j)) (jp_jobs s'))]"
    by (rule issue_reorder_shape)
  have perm: "mset moved = mset (jp_jobs s)"
    using moved by (rule arrayMove_mset)
  then have len: "length moved = length (jp_jobs s)"
    by (rule mset_eq_length)
  have ids: "mset (map job_id (jp_jobs s')) = mset (map job_id (jp_jobs s))"
    using perm by (simp add: view with_order_ids)
  have orders: "map order (jp_jobs s')
           = map (\<lambda>i. (jp_page s - 1) * 10 + int i) [0..<length (jp_jobs s)]"
    by (simp add: view with_order_orders len)
  show ?thesis
    using ids orders req by simp
qed

text \<open>The drag of job 11 over job 12 on the second page of the twelve seeded jobs.\<close>

lemma second_page_issue:
  "jobs_handleDragEnd_issue drag_11_over_12 second_page
       = Some (second_page_dragged, Some (jp_jobs second_page))"
    by (simp add: jobs_handleDragEnd_issue_def drag_11_over_12_def second_page_def
        second_page_dragged_def seed_job_def is_job_def arrayMove_def splice_delete1_def
        splice_insert_def rel_index_def with_order_def Let_def upt_rec)

lemma second_page_loaded: "jobs_of (GET_jobs (board_query 2) seeded) = jp_jobs second_page"
  by code_simp

lemma second_page_written:
  "jobs_bulkUpdate [(12, 10), (11, 11)] seeded = seeded_reordered"
  by (simp add: seeded_def seeded_reordered_def jobs_bulkUpdate_def set_order_def
      job_id_seed_job upt_rec eval_nat_numeral)

lemma jobs_effect_after_failure:
  assumes "\<not> ok res"
  shows "jobs_effect d s1 (jobs_handleDragEnd_settle res originalJobs s1)
           = fetchJobs d (jobs_handleDragEnd_settle res originalJobs s1)"
  using assms by (simp add: jobs_effect_def jobs_handleDragEnd_settle_def)

lemma GET_jobs_ok: "ok (GET_jobs q d)"
  by (simp add: GET_jobs_def ok_def HttpResponse_json_def Let_def)

lemma fetchJobs_view:
  "jp_jobs (fetchJobs d s)
     = jobs_of (GET_jobs \<lparr>jq_search = Some (jp_search s), jq_status = Some (jp_status s),
                          jq_page = Some (jp_page s), jq_pageSize = Some 10,
                          jq_sort = Some ByOrder\<rparr> d)"
  by (simp add: fetchJobs_def dispatch_ListJobs respond_def GET_jobs_ok Let_def)

text \<open>
  C3. No bulk reorder succeeds. Two jobs are loaded on the second page of a store of
  twelve, job 11 is dragged over job 12, the draw triggers no failure. The board sends the
  orders 10 and 11, not 0 and 1. The request is answered by the resolver of
  \<open>PATCH /jobs/:id\<close>, which rejects: the status is 500, the store is as before, and the
  board shows the window as it was. The resolver registered under \<open>'/jobs/reorder'\<close>,
  called by itself on that payload, writes the orders 10 and 11 into the store and then
  answers 500, its second pass having rejected; for no payload and no draw is its answer
  ok.
\<close>

theorem reorder_of_second_page_fails:
  "jobs_of (GET_jobs (board_query 2) seeded) = jp_jobs second_page
   \<and> jobs_handleDragEnd_issue drag_11_over_12 second_page
       = Some (second_page_dragged, Some (jp_jobs second_page))
   \<and> last (jp_requests second_page_dragged) = OrderedJobs [(12, 10), (11, 11)]
   \<and> map order (jp_jobs second_page_dragged) = [10, 11]
   \<and> mset [10, 11] \<noteq> mset (map int [0..<2])
   \<and> dispatch (1 / 2) now (ReorderJobs (OrderedJobs [(12, 10), (11, 11)])) seeded
       = (Inl DataError, seeded)
   \<and> res_status (respond (Inl DataError)) = 500
   \<and> \<not> ok (respond (Inl DataError))
   \<and> map_option (\<lambda>(s, d). (jp_jobs s, d))
        (drop_on_jobs_board (1 / 2) now drag_11_over_12 (second_page, seeded))
       = Some (jp_jobs second_page, seeded)
   \<and> PATCH_jobs_reorder (1 / 2) (OrderedJobs [(12, 10), (11, 11)]) seeded
       = (Inr (HttpResponse_json (Message ''Failed to reorder jobs (internal)'') 500),
          seeded_reordered)
   \<and> map order (filter (\<lambda>j. job_id j \<in> {11, 12}) (jobs seeded_reordered)) = [11, 10]
   \<and> (\<exists>res. fst (PATCH_jobs_reorder rnd payload d) = Inr res \<and> \<not> ok res)"
proof -
  have a: "\<not> simulateError (1 / 10) (1 / 2)" and b: "\<not> simulateError (15 / 100) (1 / 2)"
    by (simp_all add: simulateError_def)
  note 1 = second_page_loaded
  note 2 = second_page_issue
  have 3: "last (jp_requests second_page_dragged) = OrderedJobs [(12, 10), (11, 11)]"
    by (simp add: second_page_dragged_def)
  have 4: "map order (jp_jobs second_page_dragged) = [10, 11]"
    by (simp add: second_page_dragged_def)
  have "set [10, 11] \<noteq> set (map int [0..<2])"
    by (auto simp: upt_rec)
  then have 5: "mset [10, 11] \<noteq> mset (map int [0..<2])"
    by (metis mset_eq_setD)
  have 6: "dispatch (1 / 2) now (ReorderJobs (OrderedJobs [(12, 10), (11, 11)])) seeded
       = (Inl DataError, seeded)"
    using a by (simp add: dispatch_ReorderJobs patch_route_on_reorder)
  have query: "\<lparr>jq_search = Some (jp_search second_page), jq_status = Some (jp_status second_page),
                 jq_page = Some (jp_page second_page), jq_pageSize = Some 10,
                 jq_sort = Some ByOrder\<rparr> = board_query 2"
    by (simp add: second_page_def board_query_def)
  have settled: "jp_search s' = jp_search second_page \<and> jp_status s' = jp_status second_page
                 \<and> jp_page s' = jp_page second_page"
    if "s' = jobs_handleDragEnd_settle (respond (Inl DataError)) (jp_jobs second_page)
               second_page_dragged" for s'
    using that
    by (simp add: jobs_handleDragEnd_settle_def second_page_dragged_def)
  have 7: "map_option (\<lambda>(s, d). (jp_jobs s, d))
        (drop_on_jobs_board (1 / 2) now drag_11_over_12 (second_page, seeded))
       = Some (jp_jobs second_page, seeded)"
    using settled[OF refl] query
    by (simp add: drop_on_jobs_board_def 2 3 6 respond_error_status
        jobs_effect_after_failure fetchJobs_view 1)
  have 8: "PATCH_jobs_reorder (1 / 2) (OrderedJobs [(12, 10), (11, 11)]) seeded
       = (Inr (HttpResponse_json (Message ''Failed to reorder jobs (internal)'') 500),
          seeded_reordered)"
    using reorder_resolver_writes_then_fails[OF _ b, of "[(12, 10), (11, 11)]" seeded]
    by (simp add: second_page_written)
  have 9: "map order (filter (\<lambda>j. job_id j \<in> {11, 12}) (jobs seeded_reordered)) = [11, 10]"
    by (simp add: seeded_reordered_def seeded_def job_id_seed_job upt_rec)
  note 10 = reorder_resolver_never_ok[of rnd payload d]
  show ?thesis
    using 1 2 3 4 5 6 7 8 9 10 respond_error_status[of DataError] by simp
qed

section \<open>Listing\<close>

subsection \<open>Search\<close>

lemma prefix_take_iff: "prefix xs ys \<longleftrightarrow> length xs \<le> length ys \<and> take (length xs) ys = xs"
proof
  assume "prefix xs ys"
  then obtain zs where "ys = xs @ zs" by (auto simp: prefix_def)
  then show "length xs \<le> length ys \<and> take (length xs) ys = xs" by simp
next
  assume a: "length xs \<le> length ys \<and> take (length xs) ys = xs"
  have "ys = take (length xs) ys @ drop (length xs) ys" by simp
  with a have "ys = xs @ drop (length xs) ys" by simp
  then show "prefix xs ys" by (auto simp: prefix_def)
qed

lemma map_eq_iff_list_all2: "map f xs = map g ys \<longleftrightarrow> list_all2 (\<lambda>a b. f a = g b) xs ys"
proof (induction xs arbitrary: ys)
  case Nil
  then show ?case by auto
next
  case (Cons x xs)
  then show ?case by (cases ys) auto
qed

lemma startsWith_lower:
  "startsWith (toLowerCase field) (toLowerCase search) = starts_with_ignoring_case field search"
proof -
  have "take (length search) (map lower_char field) = map lower_char (take (length search) field)"
    by (simp add: take_map)
  then have "(take (length search) (map lower_char field) = map lower_char search)
       = list_all2 (\<lambda>a b. lower_char a = lower_char b) (take (length search) field) search"
    by (simp only: map_eq_iff_list_all2)
  then show ?thesis
    by (simp add: startsWith_def toLowerCase_def starts_with_ignoring_case_def prefix_take_iff)
qed


lemma starts_with_empty: "starts_with_ignoring_case field []"
  by (simp add: starts_with_ignoring_case_def)

lemma job_matches_iff:
  "job_matches (toLowerCase search)
     = (\<lambda>j. starts_with_ignoring_case (title j) search \<or> starts_with_ignoring_case (slug j) search)"
  by (rule ext) (simp only: job_matches_def startsWith_lower)

lemma candidate_matches_iff:
  "candidate_matches (toLowerCase search)
     = (\<lambda>c. starts_with_ignoring_case (name c) search \<or> starts_with_ignoring_case (email c) search)"
  by (rule ext) (simp only: candidate_matches_def startsWith_lower)

lemma jobs_collection_eq:
  "jobs_collection search st d
     = filter (\<lambda>j. starts_with_ignoring_case (title j) search \<or> starts_with_ignoring_case (slug j) search)
         (filter (\<lambda>j. st = ''all'' \<or> status j = st) (jobs d))"
proof (cases "search = []")
  case True
  then show ?thesis
    by (simp add: jobs_collection_def starts_with_empty)
next
  case False
  then show ?thesis
    by (simp add: jobs_collection_def job_matches_iff)
qed

lemma candidates_collection_eq:
  "candidates_collection search st d
     = filter (\<lambda>c. starts_with_ignoring_case (name c) search \<or> starts_with_ignoring_case (email c) search)
         (filter (\<lambda>c. st = ''all'' \<or> stage c = st) (candidates d))"
proof (cases "search = []")
  case True
  then show ?thesis
    by (simp add: candidates_collection_def starts_with_empty)
next
  case False
  then show ?thesis
    by (simp add: candidates_collection_def candidate_matches_iff)
qed

text \<open>
  C8. A job is in the collection that \<open>GET /jobs\<close> counts, sorts and slices exactly when
  it is stored, passes the status filter and its title or its slug starts with the search
  string up to letter case; likewise a candidate with its name or its email. A field that
  holds the search string further inside does not match.
\<close>

theorem search_is_case_insensitive_prefix:
  "(j \<in> set (jobs_collection search st d) \<longleftrightarrow>
      j \<in> set (jobs d) \<and> (st = ''all'' \<or> status j = st)
      \<and> (starts_with_ignoring_case (title j) search \<or> starts_with_ignoring_case (slug j) search))
   \<and> (c \<in> set (candidates_collection search st d) \<longleftrightarrow>
      c \<in> set (candidates d) \<and> (st = ''all'' \<or> stage c = st)
      \<and> (starts_with_ignoring_case (name c) search \<or> starts_with_ignoring_case (email c) search))"
  unfolding jobs_collection_eq candidates_collection_eq by auto

theorem search_is_case_insensitive_prefix_witness:
  "job2 \<in> set (jobs_collection ''BACKEND'' ''all'' db0)
   \<and> job1 \<notin> set (jobs_collection ''BACKEND'' ''all'' db0)
   \<and> toLowerCase (title job1) = ''senior '' @ toLowerCase ''BACKEND'' @ '' developer''
   \<and> cand1 \<in> set (candidates_collection ''tara'' ''all'' db0)
   \<and> cand2 \<notin> set (candidates_collection ''SHAH'' ''all'' db0)
   \<and> toLowerCase (name cand2) = ''veer '' @ toLowerCase ''SHAH''"
proof -
  have a: "starts_with_ignoring_case (title job2) ''BACKEND''"
    and b: "\<not> starts_with_ignoring_case (title job1) ''BACKEND''"
    and c: "\<not> starts_with_ignoring_case (slug job1) ''BACKEND''"
    by (simp_all add: starts_with_ignoring_case_def job1_def job2_def lower_char_def)
  have d: "starts_with_ignoring_case (name cand1) ''tara''"
    and e: "\<not> starts_with_ignoring_case (name cand2) ''SHAH''"
    and f: "\<not> starts_with_ignoring_case (email cand2) ''SHAH''"
    by (simp_all add: starts_with_ignoring_case_def cand1_def cand2_def lower_char_def)
  have m: "job1 \<in> set (jobs db0)" "job2 \<in> set (jobs db0)" "cand1 \<in> set (candidates db0)"
    "cand2 \<in> set (candidates db0)"
    by (simp_all add: db0_def)
  have l1: "toLowerCase (title job1) = ''senior '' @ toLowerCase ''BACKEND'' @ '' developer''"
    by (simp add: toLowerCase_def lower_char_def job1_def)
  have l2: "toLowerCase (name cand2) = ''veer '' @ toLowerCase ''SHAH''"
    by (simp add: toLowerCase_def lower_char_def cand2_def)
  have j2: "job2 \<in> set (jobs_collection ''BACKEND'' ''all'' db0)"
    using search_is_case_insensitive_prefix[of job2 "''BACKEND''" "''all''" db0 cand1] a m
    by simp
  have j1: "job1 \<notin> set (jobs_collection ''BACKEND'' ''all'' db0)"
    using search_is_case_insensitive_prefix[of job1 "''BACKEND''" "''all''" db0 cand1] b c
    by simp
  have c1: "cand1 \<in> set (candidates_collection ''tara'' ''all'' db0)"
    using search_is_case_insensitive_prefix[of job1 "''tara''" "''all''" db0 cand1] d m
    by simp
  have c2: "cand2 \<notin> set (candidates_collection ''SHAH'' ''all'' db0)"
    using search_is_case_insensitive_prefix[of job1 "''SHAH''" "''all''" db0 cand2] e f
    by simp
  show ?thesis
    using j1 j2 c1 c2 l1 l2 by simp
qed

subsection \<open>The pipeline of \<open>GET /jobs\<close>\<close>

lemma take_drop_window:
  "take (min (a + n) (length xs) - min a (length xs)) (drop (min a (length xs)) xs)
     = take n (drop a xs)"
proof (cases "a \<le> length xs")
  case True
  show ?thesis
  proof (cases "a + n \<le> length xs")
    case le: True
    with True show ?thesis by (simp add: min_def)
  next
    case gt: False
    then have "length (drop a xs) \<le> n" by simp
    then have "take n (drop a xs) = drop a xs" by (rule take_all)
    moreover have "take (length xs - a) (drop a xs) = drop a xs" by simp
    ultimately show ?thesis using True gt by (simp add: min_def)
  qed
next
  case False
  then show ?thesis by simp
qed

lemma js_slice_page:
  assumes "1 \<le> page" and "1 \<le> ps"
  shows "js_slice xs ((page - 1) * ps) (page * ps) = take (nat ps) (drop (nat ((page - 1) * ps)) xs)"
proof -
  have a: "0 \<le> (page - 1) * ps" and b: "0 \<le> page * ps"
    using assms by simp_all
  have "page * ps = (page - 1) * ps + ps"
    by (simp add: algebra_simps)
  then have nb: "nat (page * ps) = nat ((page - 1) * ps) + nat ps"
    using a assms(2) by (simp add: nat_add_distrib)
  show ?thesis
    using a b
    by (simp add: js_slice_def rel_index_def Let_def nb take_drop_window not_less[symmetric]
        del: not_less)
qed

lemma ceil_div_real:
  "ps \<noteq> 0 \<Longrightarrow> ceil_div n ps = Some \<lceil>real_of_int n / real_of_int ps\<rceil>"
  by (simp add: ceil_div_def ceiling_divide_eq_div)

subsection \<open>The pipeline of \<open>GET /jobs\<close>\<close>

text \<open>
  Sorting by a key read through \<open>getval\<close> is sorting by the field itself: numbers by
  \<open>\<le>\<close>, strings by the codes of their characters.
\<close>

lemma insort_key_cong_le:
  "(\<And>a b. (f a \<le> f b) = (g a \<le> g b)) \<Longrightarrow> insort_key f x ys = insort_key g x ys"
  by (induction ys) simp_all

lemma sort_key_cong_le:
  assumes "\<And>a b. (f a \<le> f b) = (g a \<le> g b)"
  shows "sort_key f xs = sort_key g xs"
proof (induction xs)
  case Nil
  then show ?case by simp
next
  case (Cons x xs)
  then show ?case
    using insort_key_cong_le[of f g x "sort_key g xs", OF assms] by simp
qed

lemma sortBy_is_stable_sort: "sortBy fld xs = stable_sort_on fld xs"
  by (cases fld)
     (simp_all add: sortBy_def stable_sort_on_def less_eq_jskey_def
        sort_key_cong_le[where f = "getval ById" and g = job_id]
        sort_key_cong_le[where f = "getval ByTitle" and g = title]
        sort_key_cong_le[where f = "getval BySlug" and g = slug]
        sort_key_cong_le[where f = "getval ByStatus" and g = status]
        sort_key_cong_le[where f = "getval ByOrder" and g = order]
        sort_key_cong_le[where f = "getval ByCreatedAt" and g = job_createdAt])

lemma GET_jobs_eq:
  "GET_jobs q d
     = (let search = or_default (jq_search q) [];
            st = or_default (jq_status q) ''all'';
            page = (case jq_page q of None \<Rightarrow> 1 | Some v \<Rightarrow> v);
            pageSize = (case jq_pageSize q of None \<Rightarrow> 10 | Some v \<Rightarrow> v);
            fld = (case jq_sort q of None \<Rightarrow> ByOrder | Some v \<Rightarrow> v)
        in HttpResponse_json
             (JobsPage (js_slice (stable_sort_on fld (filter_then_match search st (jobs d)))
                          ((page - 1) * pageSize) (page * pageSize))
                \<lparr>pg_page = page, pg_pageSize = pageSize,
                   pg_total = int (length (filter_then_match search st (jobs d))),
                   pg_totalPages
                     = ceil_div (int (length (filter_then_match search st (jobs d)))) pageSize\<rparr>)
             200)"
  by (simp add: GET_jobs_def Let_def jobs_collection_eq filter_then_match_def
      sortBy_is_stable_sort)

text \<open>A created job goes to the end of the table, after every job stored before it.\<close>

lemma created_job_is_appended:
  assumes "POST_jobs rnd now newJob d = (Inr res, d')" and "ok res"
  shows "\<exists>j. res_body res = JobBody j \<and> jobs d' = jobs d @ [j]
             \<and> job_id j = jobs_keygen d \<and> status j = ''active''
             \<and> order j = (case last_by_order (jobs d) of None \<Rightarrow> 0 | Some l \<Rightarrow> order l) + 1"
  using assms
  by (auto simp: POST_jobs_def jobs_add_def Let_def ok_def HttpResponse_json_def
      split: if_splits sum.splits)

text \<open>
  C7. A list-jobs request carries any of \<open>search\<close>, \<open>status\<close>, \<open>page\<close>, \<open>pageSize\<close> and
  \<open>sort\<close>; a parameter that is absent (or, for \<open>search\<close> and \<open>status\<close>, empty) has the
  default \<open>''\<close>, \<open>all\<close>, 1, 10, \<open>order\<close>. \<open>F\<close> is the table after the status equality
  filter and then the prefix match, \<open>S\<close> is \<open>F\<close> sorted on the sort field. The answer
  holds the JavaScript slice \<open>[(page - 1) * pageSize, page * pageSize)\<close> of \<open>S\<close>, the
  length of \<open>F\<close> as \<open>total\<close> and \<open>ceil(total / pageSize)\<close> as \<open>totalPages\<close>. \<open>S\<close> is a
  permutation of \<open>F\<close>, is ascending in the sort field, and keeps the jobs that agree on
  the sort field in the order of the table, which is the order of insertion. For a page and
  a page size of at least 1 the slice is \<open>pageSize\<close> elements after the first
  \<open>(page - 1) * pageSize\<close>.
\<close>

theorem list_jobs_pipeline:
  assumes "search = or_default (jq_search q) []"
    and "st = or_default (jq_status q) ''all''"
    and "page = (case jq_page q of None \<Rightarrow> 1 | Some v \<Rightarrow> v)"
    and "pageSize = (case jq_pageSize q of None \<Rightarrow> 10 | Some v \<Rightarrow> v)"
    and "fld = (case jq_sort q of None \<Rightarrow> ByOrder | Some v \<Rightarrow> v)"
    and "F = filter (\<lambda>j. starts_with_ignoring_case (title j) search
                        \<or> starts_with_ignoring_case (slug j) search)
               (filter (\<lambda>j. st = ''all'' \<or> status j = st) (jobs d))"
    and "S = stable_sort_on fld F"
  shows "GET_jobs q d
     = HttpResponse_json
         (JobsPage (js_slice S ((page - 1) * pageSize) (page * pageSize))
            \<lparr>pg_page = page, pg_pageSize = pageSize, pg_total = int (length F),
               pg_totalPages = ceil_div (int (length F)) pageSize\<rparr>)
         200
   \<and> mset S = mset F
   \<and> (fld = ById \<longrightarrow> sorted (map job_id S)
        \<and> (\<forall>k. filter (\<lambda>j. job_id j = k) S = filter (\<lambda>j. job_id j = k) F))
   \<and> (fld = ByTitle \<longrightarrow> sorted (map title S)
        \<and> (\<forall>k. filter (\<lambda>j. title j = k) S = filter (\<lambda>j. title j = k) F))
   \<and> (fld = BySlug \<longrightarrow> sorted (map slug S)
        \<and> (\<forall>k. filter (\<lambda>j. slug j = k) S = filter (\<lambda>j. slug j = k) F))
   \<and> (fld = ByStatus \<longrightarrow> sorted (map status S)
        \<and> (\<forall>k. filter (\<lambda>j. status j = k) S = filter (\<lambda>j. status j = k) F))
   \<and> (fld = ByOrder \<longrightarrow> sorted (map order S)
        \<and> (\<forall>k. filter (\<lambda>j. order j = k) S = filter (\<lambda>j. order j = k) F))
   \<and> (fld = ByCreatedAt \<longrightarrow> sorted (map job_createdAt S)
        \<and> (\<forall>k. filter (\<lambda>j. job_createdAt j = k) S = filter (\<lambda>j. job_createdAt j = k) F))
   \<and> (1 \<le> page \<and> 1 \<le> pageSize \<longrightarrow>
        js_slice S ((page - 1) * pageSize) (page * pageSize)
          = take (nat pageSize) (drop (nat ((page - 1) * pageSize)) S)
        \<and> ceil_div (int (length F)) pageSize
          = Some \<lceil>real (length F) / real_of_int pageSize\<rceil>)"
proof -
  have F: "F = filter_then_match search st (jobs d)"
    by (simp add: assms(6) filter_then_match_def)
  have 1: "GET_jobs q d
     = HttpResponse_json
         (JobsPage (js_slice S ((page - 1) * pageSize) (page * pageSize))
            \<lparr>pg_page = page, pg_pageSize = pageSize, pg_total = int (length F),
               pg_totalPages = ceil_div (int (length F)) pageSize\<rparr>)
         200"
    unfolding GET_jobs_eq[of q d] Let_def
    by (simp only: assms(1-5)[symmetric] F[symmetric] assms(7)[symmetric])
  have 2: "mset S = mset F"
    by (cases fld) (simp_all add: assms(7) stable_sort_on_def)
  have 3: "fld = ById \<longrightarrow> sorted (map job_id S)
        \<and> (\<forall>k. filter (\<lambda>j. job_id j = k) S = filter (\<lambda>j. job_id j = k) F)"
    by (simp add: assms(7) stable_sort_on_def sort_key_stable)
  have 4: "fld = ByTitle \<longrightarrow> sorted (map title S)
        \<and> (\<forall>k. filter (\<lambda>j. title j = k) S = filter (\<lambda>j. title j = k) F)"
    by (simp add: assms(7) stable_sort_on_def sort_key_stable)
  have 5: "fld = BySlug \<longrightarrow> sorted (map slug S)
        \<and> (\<forall>k. filter (\<lambda>j. slug j = k) S = filter (\<lambda>j. slug j = k) F)"
    by (simp add: assms(7) stable_sort_on_def sort_key_stable)
  have 6: "fld = ByStatus \<longrightarrow> sorted (map status S)
        \<and> (\<forall>k. filter (\<lambda>j. status j = k) S = filter (\<lambda>j. status j = k) F)"
    by (simp add: assms(7) stable_sort_on_def sort_key_stable)
  have 7: "fld = ByOrder \<longrightarrow> sorted (map order S)
        \<and> (\<forall>k. filter (\<lambda>j. order j = k) S = filter (\<lambda>j. order j = k) F)"
    by (simp add: assms(7) stable_sort_on_def sort_key_stable)
  have 8: "fld = ByCreatedAt \<longrightarrow> sorted (map job_createdAt S)
        \<and> (\<forall>k. filter (\<lambda>j. job_createdAt j = k) S = filter (\<lambda>j. job_createdAt j = k) F)"
    by (simp add: assms(7) stable_sort_on_def sort_key_stable)
  have 9: "1 \<le> page \<and> 1 \<le> pageSize \<longrightarrow>
        js_slice S ((page - 1) * pageSize) (page * pageSize)
          = take (nat pageSize) (drop (nat ((page - 1) * pageSize)) S)
        \<and> ceil_div (int (length F)) pageSize = Some \<lceil>real (length F) / real_of_int pageSize\<rceil>"
    using ceil_div_real[of pageSize "int (length F)"] by (auto simp: js_slice_page)
  show ?thesis
    using 1 2 3 4 5 6 7 8 9 by blast
qed

text \<open>
  The request \<open>/jobs?search=BACK&status=active&page=2&pageSize=2\<close> on a table of six
  jobs whose orders are not ascending. The status filter drops the archived job, the
  prefix match drops the job whose title only contains the search string and keeps the job
  whose slug starts with it; the four jobs left are sorted on \<open>order\<close>, the two with
  order 1 staying in table order; the second page holds the last two. The request
  \<open>/jobs?status=active&pageSize=1000\<close> of the candidate form on the same table.
\<close>

lemma shuffled_matching:
  "filter (\<lambda>j. starts_with_ignoring_case (title j) ''BACK''
               \<or> starts_with_ignoring_case (slug j) ''BACK'')
     (filter (\<lambda>j. ''active'' = ''all'' \<or> status j = ''active'') (jobs shuffled))
     = [job_engineer, job_lead, job_scientist, job_intern]"
  by (simp add: shuffled_def starts_with_ignoring_case_def lower_char_def job_engineer_def
      job_archived_def job_senior_def job_lead_def job_scientist_def job_intern_def)

lemma shuffled_sorted:
  "stable_sort_on ByOrder [job_engineer, job_lead, job_scientist, job_intern]
     = [job_intern, job_lead, job_scientist, job_engineer]"
  by (simp add: stable_sort_on_def job_engineer_def job_lead_def job_scientist_def
      job_intern_def)

lemma shuffled_active:
  "filter (\<lambda>j. starts_with_ignoring_case (title j) []
               \<or> starts_with_ignoring_case (slug j) [])
     (filter (\<lambda>j. ''active'' = ''all'' \<or> status j = ''active'') (jobs shuffled))
     = [job_engineer, job_senior, job_lead, job_scientist, job_intern]"
  by (simp add: shuffled_def starts_with_empty job_engineer_def
      job_archived_def job_senior_def job_lead_def job_scientist_def job_intern_def)

lemma shuffled_active_sorted:
  "stable_sort_on ByOrder [job_engineer, job_senior, job_lead, job_scientist, job_intern]
     = [job_intern, job_senior, job_lead, job_scientist, job_engineer]"
  by (simp add: stable_sort_on_def job_engineer_def job_senior_def job_lead_def
      job_scientist_def job_intern_def)

theorem list_jobs_pipeline_witness:
  "map order (jobs shuffled) = [3, 0, 1, 1, 1, 0]
   \<and> ''BACK'' = or_default (jq_search back_query) []
   \<and> ''active'' = or_default (jq_status back_query) ''all''
   \<and> (2::int) = (case jq_page back_query of None \<Rightarrow> 1 | Some v \<Rightarrow> v)
   \<and> (2::int) = (case jq_pageSize back_query of None \<Rightarrow> 10 | Some v \<Rightarrow> v)
   \<and> ByOrder = (case jq_sort back_query of None \<Rightarrow> ByOrder | Some v \<Rightarrow> v)
   \<and> GET_jobs back_query shuffled
       = HttpResponse_json
           (JobsPage [job_scientist, job_engineer]
              \<lparr>pg_page = 2, pg_pageSize = 2, pg_total = 4, pg_totalPages = Some 2\<rparr>) 200
   \<and> sorted (map order [job_intern, job_lead, job_scientist, job_engineer])
   \<and> filter (\<lambda>j. order j = 1) [job_intern, job_lead, job_scientist, job_engineer]
       = filter (\<lambda>j. order j = 1) [job_engineer, job_lead, job_scientist, job_intern]
   \<and> GET_jobs form_query shuffled
       = HttpResponse_json
           (JobsPage [job_intern, job_senior, job_lead, job_scientist, job_engineer]
              \<lparr>pg_page = 1, pg_pageSize = 1000, pg_total = 5, pg_totalPages = Some 1\<rparr>) 200"
proof -
  have o: "map order (jobs shuffled) = [3, 0, 1, 1, 1, 0]"
    by (simp add: shuffled_def job_engineer_def job_archived_def job_senior_def job_lead_def
        job_scientist_def job_intern_def)
  have a1: "''BACK'' = or_default (jq_search back_query) []"
    and a2: "''active'' = or_default (jq_status back_query) ''all''"
    and a3: "(2::int) = (case jq_page back_query of None \<Rightarrow> 1 | Some v \<Rightarrow> v)"
    and a4: "(2::int) = (case jq_pageSize back_query of None \<Rightarrow> 10 | Some v \<Rightarrow> v)"
    and a5: "ByOrder = (case jq_sort back_query of None \<Rightarrow> ByOrder | Some v \<Rightarrow> v)"
    by (simp_all add: back_query_def or_default_def)
  note r = list_jobs_pipeline[OF a1 a2 a3 a4 a5 shuffled_matching[symmetric]
      shuffled_sorted[symmetric]]
  have sl: "take (nat 2) (drop (nat ((2 - 1) * 2)) [job_intern, job_lead, job_scientist, job_engineer])
              = [job_scientist, job_engineer]"
    by simp
  have ce: "\<lceil>real (length [job_engineer, job_lead, job_scientist, job_intern]) / real_of_int 2\<rceil> = 2"
    by simp
  have g: "GET_jobs back_query shuffled
       = HttpResponse_json
           (JobsPage [job_scientist, job_engineer]
              \<lparr>pg_page = 2, pg_pageSize = 2, pg_total = 4, pg_totalPages = Some 2\<rparr>) 200"
    using r sl ce by simp
  have s: "sorted (map order [job_intern, job_lead, job_scientist, job_engineer])"
    using r by blast
  have t: "filter (\<lambda>j. order j = 1) [job_intern, job_lead, job_scientist, job_engineer]
       = filter (\<lambda>j. order j = 1) [job_engineer, job_lead, job_scientist, job_intern]"
    using r by blast
  have b1: "[] = or_default (jq_search form_query) []"
    and b2: "''active'' = or_default (jq_status form_query) ''all''"
    and b3: "(1::int) = (case jq_page form_query of None \<Rightarrow> 1 | Some v \<Rightarrow> v)"
    and b4: "(1000::int) = (case jq_pageSize form_query of None \<Rightarrow> 10 | Some v \<Rightarrow> v)"
    and b5: "ByOrder = (case jq_sort form_query of None \<Rightarrow> ByOrder | Some v \<Rightarrow> v)"
    by (simp_all add: form_query_def or_default_def)
  note r' = list_jobs_pipeline[OF b1 b2 b3 b4 b5 shuffled_active[symmetric]
      shuffled_active_sorted[symmetric]]
  have ce': "\<lceil>real (length [job_engineer, job_senior, job_lead, job_scientist, job_intern])
               / real_of_int 1000\<rceil> = 1"
    by (simp add: ceiling_eq_iff)
  have g': "GET_jobs form_query shuffled
       = HttpResponse_json
           (JobsPage [job_intern, job_senior, job_lead, job_scientist, job_engineer]
              \<lparr>pg_page = 1, pg_pageSize = 1000, pg_total = 5, pg_totalPages = Some 1\<rparr>) 200"
    using r' ce' by simp
  show ?thesis
    using o a1 a2 a3 a4 a5 g s t g' by simp
qed

subsection \<open>Pages\<close>

lemma concat_pages: "concat (map (\<lambda>i. take n (drop (i * n) xs)) [0..<t]) = take (t * n) xs"
proof (induction t)
  case 0
  then show ?case by simp
next
  case (Suc t)
  have "take (t * n + n) xs = take (t * n) xs @ take n (drop (t * n) xs)"
    by (rule take_add)
  with Suc show ?case by (simp add: add.commute)
qed

lemma pages_cover:
  assumes "length xs \<le> t * n"
  shows "(\<Sum>i\<leftarrow>[0..<t]. length (take n (drop (i * n) xs))) = length xs"
proof -
  have "(\<Sum>i\<leftarrow>[0..<t]. length (take n (drop (i * n) xs)))
          = length (concat (map (\<lambda>i. take n (drop (i * n) xs)) [0..<t]))"
    by (simp add: length_concat comp_def)
  also have "\<dots> = length (take (t * n) xs)"
    by (simp only: concat_pages)
  finally show ?thesis using assms by simp
qed

lemma pages_disjoint:
  assumes "distinct xs" and "i < k"
  shows "set (take n (drop (i * n) xs)) \<inter> set (take n (drop (k * n) xs)) = {}"
proof -
  have le: "i * n + n \<le> k * n"
  proof -
    from assms(2) have "Suc i \<le> k" by simp
    then have "Suc i * n \<le> k * n" by (rule mult_le_mono1)
    then show ?thesis by (simp add: add.commute)
  qed
  have "take n (drop (i * n) xs) = drop (i * n) (take (i * n + n) xs)"
    by (simp add: take_drop add.commute)
  then have "set (take n (drop (i * n) xs)) \<subseteq> set (take (i * n + n) xs)"
    by (simp add: set_drop_subset)
  also have "\<dots> \<subseteq> set (take (k * n) xs)"
    using le by (rule set_take_subset_set_take)
  finally have a: "set (take n (drop (i * n) xs)) \<subseteq> set (take (k * n) xs)" .
  have b: "set (take n (drop (k * n) xs)) \<subseteq> set (drop (k * n) xs)"
    by (rule set_take_subset)
  have "distinct (take (k * n) xs @ drop (k * n) xs)"
    using assms(1) by simp
  then have "set (take (k * n) xs) \<inter> set (drop (k * n) xs) = {}"
    by (simp only: distinct_append)
  with a b show ?thesis by blast
qed

lemma upto_from_1: "[1..int t] = map (\<lambda>i. int i + 1) [0..<t]"
proof (induction t)
  case 0
  then show ?case by simp
next
  case (Suc t)
  have "[1..int (Suc t)] = [1..int t] @ [int t + 1]"
    by (simp add: upto_rec2 add.commute)
  with Suc show ?case by simp
qed

lemma ceil_div_covers:
  assumes "1 \<le> ps" and "0 \<le> n" and "ceil_div n ps = Some t"
  shows "0 \<le> t \<and> n \<le> t * ps"
proof -
  from assms have t: "t = - ((- n) div ps)"
    by (simp add: ceil_div_def split: if_splits)
  have pos: "0 < ps" using assms(1) by simp
  have "(- n) div ps * ps + (- n) mod ps = - n"
    by (rule div_mult_mod_eq)
  moreover have "0 \<le> (- n) mod ps"
    using pos by (rule pos_mod_sign)
  ultimately have "(- n) div ps * ps \<le> - n" by linarith
  then have "n \<le> t * ps" by (simp add: t)
  moreover have "(- n) div ps \<le> 0 div ps"
    using assms(2) pos by (intro zdiv_mono1) simp_all
  ultimately show ?thesis by (simp add: t)
qed

lemma int_sum_list: "(\<Sum>x\<leftarrow>xs. int (f x)) = int (\<Sum>x\<leftarrow>xs. f x)"
  by (induction xs) simp_all

lemma sum_pages_int:
  assumes "0 \<le> t" and "1 \<le> ps" and "int (length xs) \<le> t * ps"
  shows "(\<Sum>p\<leftarrow>[1..t]. int (length (take (nat ps) (drop (nat ((p - 1) * ps)) xs)))) = int (length xs)"
proof -
  have t: "t = int (nat t)" using assms(1) by simp
  have idx: "nat ((int i + 1 - 1) * ps) = i * nat ps" for i
    using assms(2) by (simp add: nat_mult_distrib)
  have "[1..t] = map (\<lambda>i. int i + 1) [0..<nat t]"
    using upto_from_1[of "nat t"] t by simp
  then have "(\<Sum>p\<leftarrow>[1..t]. int (length (take (nat ps) (drop (nat ((p - 1) * ps)) xs))))
      = (\<Sum>i\<leftarrow>[0..<nat t]. int (length (take (nat ps) (drop (i * nat ps) xs))))"
    by (simp only: map_map comp_def idx)
  also have "\<dots> = int (\<Sum>i\<leftarrow>[0..<nat t]. length (take (nat ps) (drop (i * nat ps) xs)))"
    by (rule int_sum_list)
  finally have eq: "(\<Sum>p\<leftarrow>[1..t]. int (length (take (nat ps) (drop (nat ((p - 1) * ps)) xs))))
      = int (\<Sum>i\<leftarrow>[0..<nat t]. length (take (nat ps) (drop (i * nat ps) xs)))" .
  have "length xs \<le> nat t * nat ps"
  proof -
    have "int (length xs) \<le> int (nat t * nat ps)"
      using assms by (simp add: nat_mult_distrib[symmetric])
    then show ?thesis by (simp only: of_nat_le_iff)
  qed
  then have "(\<Sum>i\<leftarrow>[0..<nat t]. length (take (nat ps) (drop (i * nat ps) xs))) = length xs"
    by (rule pages_cover)
  with eq show ?thesis by simp
qed

lemma pages_disjoint_int:
  assumes "distinct xs" and "1 \<le> ps" and "1 \<le> p" and "p < p'"
  shows "set (take (nat ps) (drop (nat ((p - 1) * ps)) xs))
           \<inter> set (take (nat ps) (drop (nat ((p' - 1) * ps)) xs)) = {}"
proof -
  have a: "nat ((p - 1) * ps) = nat (p - 1) * nat ps" and b: "nat ((p' - 1) * ps) = nat (p' - 1) * nat ps"
    using assms by (simp_all add: nat_mult_distrib)
  have "nat (p - 1) < nat (p' - 1)" using assms by simp
  with assms(1) show ?thesis
    unfolding a b by (rule pages_disjoint)
qed

lemma jobs_pagination:
  assumes pg: "pagination_of (GET_jobs q d) = Some pg" and ps: "1 \<le> pg_pageSize pg"
  shows "(\<exists>t. pg_totalPages pg = Some t
             \<and> pg_total pg = (\<Sum>p\<leftarrow>[1..t]. int (length (jobs_page_no q d p))))
       \<and> (distinct (map job_id (jobs d)) \<longrightarrow>
            (\<forall>p p'. 1 \<le> p \<and> p < p' \<longrightarrow>
               set (jobs_page_no q d p) \<inter> set (jobs_page_no q d p') = {}))"
proof -
  define n where "n = (case jq_pageSize q of None \<Rightarrow> 10 | Some v \<Rightarrow> v)"
  define C where "C = jobs_collection (or_default (jq_search q) []) (or_default (jq_status q) ''all'') d"
  define S where "S = sortBy (case jq_sort q of None \<Rightarrow> ByOrder | Some v \<Rightarrow> v) C"
  have pg_eq: "pg_pageSize pg = n" "pg_total pg = int (length C)"
    "pg_totalPages pg = ceil_div (int (length C)) n"
    using pg by (auto simp: GET_jobs_def pagination_of_def HttpResponse_json_def Let_def
        n_def C_def)
  have n1: "1 \<le> n" using ps pg_eq by simp
  have lenS: "length S = length C" by (simp add: S_def sortBy_def)
  have page: "jobs_page_no q d p = take (nat n) (drop (nat ((p - 1) * n)) S)" if "1 \<le> p" for p
    using js_slice_page[OF that n1, of S]
    by (simp add: jobs_page_no_def GET_jobs_def jobs_of_def HttpResponse_json_def Let_def
        n_def C_def S_def)
  obtain t where t: "ceil_div (int (length C)) n = Some t"
    using n1 by (auto simp: ceil_div_def)
  from ceil_div_covers[OF n1 _ t] have t0: "0 \<le> t" and cover: "int (length S) \<le> t * n"
    by (simp_all add: lenS)
  have "(\<Sum>p\<leftarrow>[1..t]. int (length (jobs_page_no q d p)))
          = (\<Sum>p\<leftarrow>[1..t]. int (length (take (nat n) (drop (nat ((p - 1) * n)) S))))"
    by (rule arg_cong[where f = sum_list], rule map_cong) (simp_all add: page)
  also have "\<dots> = int (length S)"
    using t0 n1 cover by (rule sum_pages_int)
  finally have total: "pg_total pg = (\<Sum>p\<leftarrow>[1..t]. int (length (jobs_page_no q d p)))"
    by (simp add: pg_eq lenS)
  have disj: "set (jobs_page_no q d p) \<inter> set (jobs_page_no q d p') = {}"
    if dd: "distinct (map job_id (jobs d))" and pp: "1 \<le> p \<and> p < p'" for p p'
  proof -
    from dd have "distinct (jobs d)" by (simp add: distinct_map)
    then have "distinct C" by (simp add: C_def jobs_collection_def Let_def)
    then have dS: "distinct S" by (simp add: S_def sortBy_def)
    from pp have "1 \<le> p'" by simp
    with pp page show ?thesis
      using pages_disjoint_int[OF dS n1, of p p'] by simp
  qed
  have A: "\<exists>t. pg_totalPages pg = Some t \<and> pg_total pg = (\<Sum>p\<leftarrow>[1..t]. int (length (jobs_page_no q d p)))"
    by (intro exI[of _ t] conjI) (simp add: pg_eq(3) t, rule total)
  have B: "distinct (map job_id (jobs d)) \<longrightarrow>
            (\<forall>p p'. 1 \<le> p \<and> p < p' \<longrightarrow> set (jobs_page_no q d p) \<inter> set (jobs_page_no q d p') = {})"
    by (intro impI allI) (rule disj)
  show ?thesis
    using A B by (rule conjI)
qed

lemma candidates_pagination:
  assumes pg: "pagination_of (GET_candidates q d) = Some pg" and ps: "1 \<le> pg_pageSize pg"
  shows "(\<exists>t. pg_totalPages pg = Some t
             \<and> pg_total pg = (\<Sum>p\<leftarrow>[1..t]. int (length (candidates_page_no q d p))))
       \<and> (distinct (map cand_id (candidates d)) \<longrightarrow>
            (\<forall>p p'. 1 \<le> p \<and> p < p' \<longrightarrow>
               set (candidates_page_no q d p) \<inter> set (candidates_page_no q d p') = {}))"
proof -
  define n where "n = (case cq_pageSize q of None \<Rightarrow> 1000 | Some v \<Rightarrow> v)"
  define C where "C = candidates_collection (or_default (cq_search q) []) (or_default (cq_stage q) ''all'') d"
  have pg_eq: "pg_pageSize pg = n" "pg_total pg = int (length C)"
    "pg_totalPages pg = ceil_div (int (length C)) n"
    using pg by (auto simp: GET_candidates_def pagination_of_def HttpResponse_json_def Let_def
        n_def C_def)
  have n1: "1 \<le> n" using ps pg_eq by simp
  have off: "limit n (offset ((p - 1) * n) C) = take (nat n) (drop (nat ((p - 1) * n)) C)"
    if "1 \<le> p" for p
    by (simp add: limit_def offset_def)
  have page: "candidates_page_no q d p = take (nat n) (drop (nat ((p - 1) * n)) C)" if "1 \<le> p" for p
    using off[OF that]
    by (simp add: candidates_page_no_def GET_candidates_def candidates_of_def
        HttpResponse_json_def Let_def n_def C_def)
  obtain t where t: "ceil_div (int (length C)) n = Some t"
    using n1 by (auto simp: ceil_div_def)
  from ceil_div_covers[OF n1 _ t] have t0: "0 \<le> t" and cover: "int (length C) \<le> t * n"
    by simp_all
  have "(\<Sum>p\<leftarrow>[1..t]. int (length (candidates_page_no q d p)))
          = (\<Sum>p\<leftarrow>[1..t]. int (length (take (nat n) (drop (nat ((p - 1) * n)) C))))"
    by (rule arg_cong[where f = sum_list], rule map_cong) (simp_all add: page)
  also have "\<dots> = int (length C)"
    using t0 n1 cover by (rule sum_pages_int)
  finally have total: "pg_total pg = (\<Sum>p\<leftarrow>[1..t]. int (length (candidates_page_no q d p)))"
    by (simp add: pg_eq)
  have disj: "set (candidates_page_no q d p) \<inter> set (candidates_page_no q d p') = {}"
    if dd: "distinct (map cand_id (candidates d))" and pp: "1 \<le> p \<and> p < p'" for p p'
  proof -
    from dd have "distinct (candidates d)" by (simp add: distinct_map)
    then have dC: "distinct C" by (simp add: C_def candidates_collection_def Let_def)
    from pp have "1 \<le> p'" by simp
    with pp page show ?thesis
      using pages_disjoint_int[OF dC n1, of p p'] by simp
  qed
  have A: "\<exists>t. pg_totalPages pg = Some t \<and> pg_total pg = (\<Sum>p\<leftarrow>[1..t]. int (length (candidates_page_no q d p)))"
    by (intro exI[of _ t] conjI) (simp add: pg_eq(3) t, rule total)
  have B: "distinct (map cand_id (candidates d)) \<longrightarrow>
            (\<forall>p p'. 1 \<le> p \<and> p < p' \<longrightarrow> set (candidates_page_no q d p) \<inter> set (candidates_page_no q d p') = {})"
    by (intro impI allI) (rule disj)
  show ?thesis
    using A B by (rule conjI)
qed

text \<open>
  C9. For a page size of at least one, the reported \<open>total\<close> is the sum of the lengths of
  the pages \<open>1, ..., totalPages\<close> of the same request, and two different pages share no
  record, the records of a table having different keys. This holds for \<open>GET /jobs\<close> and
  for \<open>GET /candidates\<close>.
\<close>

theorem pagination_invariant:
  "(pagination_of (GET_jobs q d) = Some pg \<and> 1 \<le> pg_pageSize pg \<longrightarrow>
      (\<exists>t. pg_totalPages pg = Some t
           \<and> pg_total pg = (\<Sum>p\<leftarrow>[1..t]. int (length (jobs_page_no q d p))))
      \<and> (distinct (map job_id (jobs d)) \<longrightarrow>
           (\<forall>p p'. 1 \<le> p \<and> p < p' \<longrightarrow>
              set (jobs_page_no q d p) \<inter> set (jobs_page_no q d p') = {})))
   \<and> (pagination_of (GET_candidates cq d) = Some cpg \<and> 1 \<le> pg_pageSize cpg \<longrightarrow>
      (\<exists>t. pg_totalPages cpg = Some t
           \<and> pg_total cpg = (\<Sum>p\<leftarrow>[1..t]. int (length (candidates_page_no cq d p))))
      \<and> (distinct (map cand_id (candidates d)) \<longrightarrow>
           (\<forall>p p'. 1 \<le> p \<and> p < p' \<longrightarrow>
              set (candidates_page_no cq d p) \<inter> set (candidates_page_no cq d p') = {})))"
  using jobs_pagination[of q d pg] candidates_pagination[of cq d cpg] by blast

lemma seeded_pagination:
  "pagination_of (GET_jobs (board_query 1) seeded)
     = Some \<lparr>pg_page = 1, pg_pageSize = 10, pg_total = 12, pg_totalPages = Some 2\<rparr>"
  by code_simp

lemma db0_pagination:
  "pagination_of (GET_candidates one_per_page db0)
     = Some \<lparr>pg_page = 1, pg_pageSize = 1, pg_total = 2, pg_totalPages = Some 2\<rparr>"
  by code_simp

theorem pagination_invariant_witness:
  "pagination_of (GET_jobs (board_query 1) seeded)
     = Some \<lparr>pg_page = 1, pg_pageSize = 10, pg_total = 12, pg_totalPages = Some 2\<rparr>
   \<and> distinct (map job_id (jobs seeded))
   \<and> (12::int) = (\<Sum>p\<leftarrow>[1..2]. int (length (jobs_page_no (board_query 1) seeded p)))
   \<and> set (jobs_page_no (board_query 1) seeded 1) \<inter> set (jobs_page_no (board_query 1) seeded 2) = {}
   \<and> pagination_of (GET_candidates one_per_page db0)
     = Some \<lparr>pg_page = 1, pg_pageSize = 1, pg_total = 2, pg_totalPages = Some 2\<rparr>
   \<and> distinct (map cand_id (candidates db0))
   \<and> (2::int) = (\<Sum>p\<leftarrow>[1..2]. int (length (candidates_page_no one_per_page db0 p)))
   \<and> set (candidates_page_no one_per_page db0 1) \<inter> set (candidates_page_no one_per_page db0 2) = {}"
proof -
  have d1: "distinct (map job_id (jobs seeded))"
    by (simp add: seeded_def job_id_seed_job upt_rec)
  have d2: "distinct (map cand_id (candidates db0))"
    by (simp add: db0_def cand1_def cand2_def)
  note r = pagination_invariant[where q = "board_query 1" and d = seeded
      and pg = "\<lparr>pg_page = 1, pg_pageSize = 10, pg_total = 12, pg_totalPages = Some 2\<rparr>"]
  note r' = pagination_invariant[where cq = one_per_page and d = db0
      and cpg = "\<lparr>pg_page = 1, pg_pageSize = 1, pg_total = 2, pg_totalPages = Some 2\<rparr>"]
  have j1: "(12::int) = (\<Sum>p\<leftarrow>[1..2]. int (length (jobs_page_no (board_query 1) seeded p)))"
    using r seeded_pagination by simp
  have j2: "set (jobs_page_no (board_query 1) seeded 1) \<inter> set (jobs_page_no (board_query 1) seeded 2) = {}"
    using r seeded_pagination d1 by simp
  have c1: "(2::int) = (\<Sum>p\<leftarrow>[1..2]. int (length (candidates_page_no one_per_page db0 p)))"
    using r' db0_pagination by simp
  have c2: "set (candidates_page_no one_per_page db0 1) \<inter> set (candidates_page_no one_per_page db0 2) = {}"
    using r' db0_pagination d2 by simp
  show ?thesis
    using seeded_pagination db0_pagination d1 d2 j1 j2 c1 c2 by simp
qed

end
